theory Spec2Isabelle
  imports Main
begin

section \<open>Invoice Agent API: a shallow embedding of invoice\_agent\_api.py\<close>

text \<open>
  The program is a Flask application in front of the Azure AI Agents SDK. The embedding
  follows \<^verbatim>\<open>src/foundry_agent_demo/invoice_agent_api.py\<close> function by function.
  Everything the program takes from outside is an explicit argument:
  \<^item> the SDK (credential, client constructor and the operations of \<^verbatim>\<open>client.agents\<close>) is a
    record of functions; each operation sees the list of platform calls made so far, so the
    platform may answer the same call differently as the conversation goes on;
  \<^item> the process environment is a map from variable names to values;
  \<^item> the clock (\<^verbatim>\<open>datetime.now().isoformat()\<close>) is a function of the number of readings
    taken so far;
  \<^item> the outcome of \<^verbatim>\<open>request.get_json()\<close> is a field of the request.
  An exception is a value: a computation that may raise returns \<open>exn + 'a\<close>, with \<open>Inl\<close>
  the raised exception. Only instances of \<^verbatim>\<open>Exception\<close> are modelled (what
  \<^verbatim>\<open>except Exception\<close> catches); calls of the logger have no effect on any result and are
  left out.
\<close>

subsection \<open>Python values\<close>

text \<open>
  A parsed JSON document, which is also what \<^verbatim>\<open>jsonify\<close> serialises. \<open>JNull\<close> is
  Python's \<^verbatim>\<open>None\<close>. \<open>JObj\<close> lists the items of a dict in insertion order; the keys of a
  dict are distinct. JSON numbers are integers here: a float takes the same branches as
  an integer everywhere below (falsy exactly when zero, not a container).
\<close>

datatype json =
    JNull
  | JBool bool
  | JInt int
  | JStr string
  | JArr "json list"
  | JObj "(string \<times> json) list"

text \<open>An exception, with the text that \<^verbatim>\<open>str(e)\<close> gives.\<close>

datatype exn = Exception (str: string)

type_synonym dict = "(string \<times> json) list"

text \<open>Truth value testing (\<^verbatim>\<open>if x\<close>, \<^verbatim>\<open>not x\<close>).\<close>

fun truthy :: "json \<Rightarrow> bool" where
  "truthy JNull = False"
| "truthy (JBool b) = b"
| "truthy (JInt n) = (n \<noteq> 0)"
| "truthy (JStr s) = (s \<noteq> [])"
| "truthy (JArr xs) = (xs \<noteq> [])"
| "truthy (JObj kvs) = (kvs \<noteq> [])"

text \<open>A name in single quotes, as the interpreter's messages write it.\<close>

definition quoted :: "string \<Rightarrow> string" where
  "quoted s = [CHR 0x27] @ s @ [CHR 0x27]"

fun startswith :: "string \<Rightarrow> string \<Rightarrow> bool" where
  "startswith s [] = True"
| "startswith [] (p # ps) = False"
| "startswith (c # cs) (p # ps) = (c = p \<and> startswith cs ps)"

fun str_contains :: "string \<Rightarrow> string \<Rightarrow> bool" where
  "str_contains [] sub = (sub = [])"
| "str_contains (c # cs) sub = (startswith (c # cs) sub \<or> str_contains cs sub)"

text \<open>
  \<^verbatim>\<open>key in data\<close>: key membership for a dict, element membership for a list, substring
  test for a string, \<^verbatim>\<open>TypeError\<close> for a value that is no container. The texts of the
  interpreter's own exceptions are those of CPython 3.11.
\<close>

fun contains :: "string \<Rightarrow> json \<Rightarrow> exn + bool" where
  "contains key (JObj kvs) = Inr (key \<in> set (map fst kvs))"
| "contains key (JArr xs) = Inr (JStr key \<in> set xs)"
| "contains key (JStr s) = Inr (str_contains s key)"
| "contains key (JInt n) = Inl (Exception ''argument of type 'int' is not iterable'')"
| "contains key (JBool b) = Inl (Exception ''argument of type 'bool' is not iterable'')"
| "contains key JNull = Inl (Exception ''argument of type 'NoneType' is not iterable'')"

text \<open>\<^verbatim>\<open>data[key]\<close> with a string key.\<close>

fun getitem :: "json \<Rightarrow> string \<Rightarrow> exn + json" where
  "getitem (JObj kvs) key =
     (case map_of kvs key of
        None \<Rightarrow> Inl (Exception (quoted key))
      | Some v \<Rightarrow> Inr v)"
| "getitem (JArr xs) key =
     Inl (Exception ''list indices must be integers or slices, not str'')"
| "getitem (JStr s) key = Inl (Exception (''string indices must be integers, not '' @ quoted ''str''))"
| "getitem (JInt n) key = Inl (Exception (quoted ''int'' @ '' object is not subscriptable''))"
| "getitem (JBool b) key = Inl (Exception (quoted ''bool'' @ '' object is not subscriptable''))"
| "getitem JNull key = Inl (Exception (quoted ''NoneType'' @ '' object is not subscriptable''))"

text \<open>\<^verbatim>\<open>data.get(key)\<close>: \<^verbatim>\<open>None\<close> for a missing key.\<close>

fun dict_get :: "json \<Rightarrow> string \<Rightarrow> exn + json" where
  "dict_get (JObj kvs) key = Inr (case map_of kvs key of None \<Rightarrow> JNull | Some v \<Rightarrow> v)"
| "dict_get (JArr xs) key = Inl (Exception (quoted ''list'' @ '' object has no attribute '' @ quoted ''get''))"
| "dict_get (JStr s) key = Inl (Exception (quoted ''str'' @ '' object has no attribute '' @ quoted ''get''))"
| "dict_get (JInt n) key = Inl (Exception (quoted ''int'' @ '' object has no attribute '' @ quoted ''get''))"
| "dict_get (JBool b) key = Inl (Exception (quoted ''bool'' @ '' object has no attribute '' @ quoted ''get''))"
| "dict_get JNull key = Inl (Exception (quoted ''NoneType'' @ '' object has no attribute '' @ quoted ''get''))"

subsection \<open>The agent platform as the program sees it\<close>

datatype ListSortOrder = ASCENDING | DESCENDING

text \<open>
  The calls that reach the platform, with their arguments. A thread identifier is
  whatever value the program passes on: the chat endpoint takes it from the request body
  unchecked.
\<close>

datatype call =
    GetAgent "string option"
  | ThreadsCreate
  | MessagesCreate json string json
  | RunsCreateAndProcess json "string option"
  | MessagesList json ListSortOrder

record agent =
  agent_name :: "string option"

record thread =
  id' :: string

text \<open>A run: its status and the text that formatting \<^verbatim>\<open>run.last_error\<close> gives.\<close>

record run =
  status :: string
  last_error :: string

text \<open>
  A message as the listing returns it. Reading an attribute of an object of the SDK may
  raise (a malformed message): \<open>text_messages\<close> is the list of text segments, each the
  outcome of \<^verbatim>\<open>.text.value\<close>; \<open>created_at\<close> is \<open>None\<close> when the object has no such
  attribute (\<^verbatim>\<open>hasattr\<close> is false) and otherwise the outcome of
  \<^verbatim>\<open>.created_at.isoformat()\<close>. An attribute reads the same each time it is read
  (the loop reads \<^verbatim>\<open>msg.text_messages\<close> twice).
\<close>

record ThreadMessage =
  role :: "exn + string"
  text_messages :: "exn + (exn + string) list"
  created_at :: "(exn + string) option"

text \<open>
  The iterable that the listing returns: it yields \<open>items\<close> in order and then, when
  \<open>failure\<close> is set, raises (fetching the next page failed).
\<close>

record ItemPaged =
  items :: "ThreadMessage list"
  failure :: "exn option"

text \<open>The operations of \<^verbatim>\<open>project_client.agents\<close>; the first argument is the call history.\<close>

record client =
  get_agent :: "call list \<Rightarrow> string option \<Rightarrow> exn + agent"
  threads_create :: "call list \<Rightarrow> exn + thread"
  messages_create :: "call list \<Rightarrow> json \<Rightarrow> string \<Rightarrow> json \<Rightarrow> exn + unit"
  runs_create_and_process :: "call list \<Rightarrow> json \<Rightarrow> string option \<Rightarrow> exn + run"
  messages_list :: "call list \<Rightarrow> json \<Rightarrow> ListSortOrder \<Rightarrow> exn + ItemPaged"

record sdk =
  DefaultAzureCredential :: "exn + unit"
  AIProjectClient :: "string option \<Rightarrow> exn + client"

text \<open>What a request changes outside the program: platform calls made, clock readings taken.\<close>

record world =
  calls :: "call list"
  ticks :: nat

definition record_call :: "call \<Rightarrow> world \<Rightarrow> world" where
  "record_call c w = w\<lparr>calls := calls w @ [c]\<rparr>"

text \<open>\<^verbatim>\<open>datetime.now().isoformat()\<close>\<close>

definition now_isoformat :: "(nat \<Rightarrow> string) \<Rightarrow> world \<Rightarrow> string \<times> world" where
  "now_isoformat clock w = (clock (ticks w), w\<lparr>ticks := Suc (ticks w)\<rparr>)"

subsection \<open>InvoiceAgentService\<close>

record service =
  project_client :: client
  agent_id :: "string option"

text \<open>
  \<^verbatim>\<open>setup_client\<close> (lines 26-52), called by the constructor: both values are read with
  \<^verbatim>\<open>os.getenv\<close> and handed to the SDK as they are; whatever is raised is logged and raised
  again.
\<close>

definition setup_client :: "sdk \<Rightarrow> (string \<rightharpoonup> string) \<Rightarrow> world \<Rightarrow> (exn + service) \<times> world" where
  "setup_client k env w =
     (let endpoint = env ''AZURE_AI_PROJECT_ENDPOINT'';
          aid = env ''AZURE_AI_AGENT_ID''
      in case DefaultAzureCredential k of
           Inl e \<Rightarrow> (Inl e, w)
         | Inr credential \<Rightarrow>
             (case AIProjectClient k endpoint of
                Inl e \<Rightarrow> (Inl e, w)
              | Inr c \<Rightarrow>
                  (case get_agent c (calls w) aid of
                     Inl e \<Rightarrow> (Inl e, record_call (GetAgent aid) w)
                   | Inr a \<Rightarrow>
                       (Inr \<lparr>project_client = c, agent_id = aid\<rparr>,
                        record_call (GetAgent aid) w))))"

text \<open>Module level (lines 118-122): a failed construction leaves \<^verbatim>\<open>invoice_service = None\<close>.\<close>

definition invoice_service :: "sdk \<Rightarrow> (string \<rightharpoonup> string) \<Rightarrow> world \<Rightarrow> service option \<times> world" where
  "invoice_service k env w =
     (case setup_client k env w of
        (Inl e, w') \<Rightarrow> (None, w')
      | (Inr s, w') \<Rightarrow> (Some s, w'))"

text \<open>
  The body of the loop over the listed messages (lines 94-99, and again 209-214): a
  message without text segments adds nothing; otherwise the dict display reads the role,
  the last text segment and the timestamp, in this order.
\<close>

definition format_message ::
  "(nat \<Rightarrow> string) \<Rightarrow> ThreadMessage \<Rightarrow> world \<Rightarrow> (exn + json option) \<times> world" where
  "format_message clock msg w =
     (case text_messages msg of
        Inl e \<Rightarrow> (Inl e, w)
      | Inr segs \<Rightarrow>
          if segs = [] then (Inr None, w)
          else
            (case role msg of
               Inl e \<Rightarrow> (Inl e, w)
             | Inr r \<Rightarrow>
                 (case last segs of
                    Inl e \<Rightarrow> (Inl e, w)
                  | Inr content \<Rightarrow>
                      (case created_at msg of
                         Some (Inl e) \<Rightarrow> (Inl e, w)
                       | Some (Inr t) \<Rightarrow>
                           (Inr (Some (JObj [(''role'', JStr r), (''content'', JStr content),
                                             (''timestamp'', JStr t)])), w)
                       | None \<Rightarrow>
                           (let (t, w') = now_isoformat clock w
                            in (Inr (Some (JObj [(''role'', JStr r), (''content'', JStr content),
                                                 (''timestamp'', JStr t)])), w'))))))"

text \<open>
  The loop \<^verbatim>\<open>for msg in messages\<close> (lines 92-99 and 207-214) with the list
  \<open>conversation\<close> built so far.
\<close>

fun format_conversation ::
  "(nat \<Rightarrow> string) \<Rightarrow> ThreadMessage list \<Rightarrow> exn option \<Rightarrow> json list \<Rightarrow> world
   \<Rightarrow> (exn + json list) \<times> world" where
  "format_conversation clock [] None conversation w = (Inr conversation, w)"
| "format_conversation clock [] (Some e) conversation w = (Inl e, w)"
| "format_conversation clock (msg # msgs) fl conversation w =
     (case format_message clock msg w of
        (Inl e, w') \<Rightarrow> (Inl e, w')
      | (Inr None, w') \<Rightarrow> format_conversation clock msgs fl conversation w'
      | (Inr (Some entry), w') \<Rightarrow> format_conversation clock msgs fl (conversation @ [entry]) w')"

text \<open>
  Lines 63-106 of \<^verbatim>\<open>process_invoice_message\<close>, the part of the \<^verbatim>\<open>try\<close> block after the
  thread is settled. A raised exception comes with the value the local variable
  \<^verbatim>\<open>thread_id\<close> has at that moment, which the handler reads.
\<close>

definition post_and_run ::
  "service \<Rightarrow> (nat \<Rightarrow> string) \<Rightarrow> json \<Rightarrow> json \<Rightarrow> world \<Rightarrow> ((exn \<times> json) + dict) \<times> world" where
  "post_and_run svc clock user_message thread_id w =
     (let c = project_client svc;
          w1 = record_call (MessagesCreate thread_id ''user'' user_message) w
      in case messages_create c (calls w) thread_id ''user'' user_message of
           Inl e \<Rightarrow> (Inl (e, thread_id), w1)
         | Inr message \<Rightarrow>
             (let w2 = record_call (RunsCreateAndProcess thread_id (agent_id svc)) w1
              in case runs_create_and_process c (calls w1) thread_id (agent_id svc) of
                   Inl e \<Rightarrow> (Inl (e, thread_id), w2)
                 | Inr r \<Rightarrow>
                     if status r = ''failed'' then
                       (Inr [(''success'', JBool False),
                             (''error'', JStr (''Agent run failed: '' @ last_error r)),
                             (''thread_id'', thread_id)], w2)
                     else
                       (let w3 = record_call (MessagesList thread_id ASCENDING) w2
                        in case messages_list c (calls w2) thread_id ASCENDING of
                             Inl e \<Rightarrow> (Inl (e, thread_id), w3)
                           | Inr messages \<Rightarrow>
                               (case format_conversation clock (items messages)
                                       (failure messages) [] w3 of
                                  (Inl e, w4) \<Rightarrow> (Inl (e, thread_id), w4)
                                | (Inr conversation, w4) \<Rightarrow>
                                    (Inr [(''success'', JBool True),
                                          (''thread_id'', thread_id),
                                          (''conversation'', JArr conversation),
                                          (''run_status'', JStr (status r))], w4)))))"

text \<open>The \<^verbatim>\<open>try\<close> block (lines 56-106): a thread is created when \<^verbatim>\<open>not thread_id\<close>.\<close>

definition process_try ::
  "service \<Rightarrow> (nat \<Rightarrow> string) \<Rightarrow> json \<Rightarrow> json \<Rightarrow> world \<Rightarrow> ((exn \<times> json) + dict) \<times> world" where
  "process_try svc clock user_message thread_id w =
     (if \<not> truthy thread_id then
        (case threads_create (project_client svc) (calls w) of
           Inl e \<Rightarrow> (Inl (e, thread_id), record_call ThreadsCreate w)
         | Inr t \<Rightarrow>
             post_and_run svc clock user_message (JStr (id' t)) (record_call ThreadsCreate w))
      else post_and_run svc clock user_message thread_id w)"

text \<open>\<^verbatim>\<open>process_invoice_message\<close> (lines 54-115): the \<^verbatim>\<open>try\<close> block and its handler.\<close>

definition process_invoice_message ::
  "service \<Rightarrow> (nat \<Rightarrow> string) \<Rightarrow> json \<Rightarrow> json \<Rightarrow> world \<Rightarrow> dict \<times> world" where
  "process_invoice_message svc clock user_message thread_id w =
     (case process_try svc clock user_message thread_id w of
        (Inl (e, tid), w') \<Rightarrow>
          ([(''success'', JBool False),
            (''error'', JStr (''Error processing message: '' @ str e)),
            (''thread_id'', tid)], w')
      | (Inr result, w') \<Rightarrow> (result, w'))"

subsection \<open>The routes\<close>

text \<open>
  A response is the dict given to \<^verbatim>\<open>jsonify\<close> and the HTTP status (200 where the
  handler names none).
\<close>

type_synonym response = "dict \<times> nat"

record request =
  get_json :: "exn + json"

definition not_available :: response where
  "not_available =
     ([(''success'', JBool False), (''error'', JStr ''Invoice service not available'')], 503)"

text \<open>\<^verbatim>\<open>health_check\<close> (lines 124-132).\<close>

definition health_check :: "service option \<Rightarrow> (nat \<Rightarrow> string) \<Rightarrow> world \<Rightarrow> response \<times> world" where
  "health_check isvc clock w =
     (let (t, w') = now_isoformat clock w
      in (([(''status'', JStr ''healthy''),
            (''service'', JStr ''Invoice Agent API''),
            (''timestamp'', JStr t),
            (''agent_available'', JBool (isvc \<noteq> None))], 200), w'))"

text \<open>The \<^verbatim>\<open>try\<close> block of \<^verbatim>\<open>chat_with_agent\<close> (lines 144-160).\<close>

definition chat_try ::
  "service \<Rightarrow> (nat \<Rightarrow> string) \<Rightarrow> request \<Rightarrow> world \<Rightarrow> (exn + response) \<times> world" where
  "chat_try svc clock req w =
     (let missing = ([(''success'', JBool False),
                      (''error'', JStr ''Missing 'message' in request body'')], 400)
      in case get_json req of
           Inl e \<Rightarrow> (Inl e, w)
         | Inr data \<Rightarrow>
             if \<not> truthy data then (Inr missing, w)
             else
               (case contains ''message'' data of
                  Inl e \<Rightarrow> (Inl e, w)
                | Inr present \<Rightarrow>
                    if \<not> present then (Inr missing, w)
                    else
                      (case getitem data ''message'' of
                         Inl e \<Rightarrow> (Inl e, w)
                       | Inr user_message \<Rightarrow>
                           (case dict_get data ''thread_id'' of
                              Inl e \<Rightarrow> (Inl e, w)
                            | Inr thread_id \<Rightarrow>
                                (let (result, w') =
                                       process_invoice_message svc clock user_message thread_id w
                                 in case getitem (JObj result) ''success'' of
                                      Inl e \<Rightarrow> (Inl e, w')
                                    | Inr ok \<Rightarrow>
                                        if truthy ok then (Inr (result, 200), w')
                                        else (Inr (result, 500), w'))))))"

text \<open>\<^verbatim>\<open>chat_with_agent\<close> (lines 134-167).\<close>

definition chat_with_agent ::
  "service option \<Rightarrow> (nat \<Rightarrow> string) \<Rightarrow> request \<Rightarrow> world \<Rightarrow> response \<times> world" where
  "chat_with_agent isvc clock req w =
     (case isvc of
        None \<Rightarrow> (not_available, w)
      | Some svc \<Rightarrow>
          (case chat_try svc clock req w of
             (Inl e, w') \<Rightarrow>
               (([(''success'', JBool False),
                  (''error'', JStr (''Internal server error: '' @ str e))], 500), w')
           | (Inr resp, w') \<Rightarrow> (resp, w')))"

text \<open>\<^verbatim>\<open>create_new_thread\<close> (lines 169-190).\<close>

definition create_new_thread ::
  "service option \<Rightarrow> (nat \<Rightarrow> string) \<Rightarrow> world \<Rightarrow> response \<times> world" where
  "create_new_thread isvc clock w =
     (case isvc of
        None \<Rightarrow> (not_available, w)
      | Some svc \<Rightarrow>
          (case threads_create (project_client svc) (calls w) of
             Inl e \<Rightarrow>
               (([(''success'', JBool False),
                  (''error'', JStr (''Failed to create thread: '' @ str e))], 500),
                record_call ThreadsCreate w)
           | Inr t \<Rightarrow>
               (let (ts, w') = now_isoformat clock (record_call ThreadsCreate w)
                in (([(''success'', JBool True),
                      (''thread_id'', JStr (id' t)),
                      (''created_at'', JStr ts)], 200), w'))))"

text \<open>\<^verbatim>\<open>get_thread_messages\<close> (lines 192-227); the thread identifier is the path segment.\<close>

definition get_thread_messages ::
  "service option \<Rightarrow> (nat \<Rightarrow> string) \<Rightarrow> string \<Rightarrow> world \<Rightarrow> response \<times> world" where
  "get_thread_messages isvc clock thread_id w =
     (case isvc of
        None \<Rightarrow> (not_available, w)
      | Some svc \<Rightarrow>
          (let w1 = record_call (MessagesList (JStr thread_id) ASCENDING) w;
               failed = (\<lambda>e. ([(''success'', JBool False),
                                (''error'', JStr (''Failed to get messages: '' @ str e))], 500))
           in case messages_list (project_client svc) (calls w) (JStr thread_id) ASCENDING of
                Inl e \<Rightarrow> (failed e, w1)
              | Inr messages \<Rightarrow>
                  (case format_conversation clock (items messages) (failure messages) [] w1 of
                     (Inl e, w2) \<Rightarrow> (failed e, w2)
                   | (Inr conversation, w2) \<Rightarrow>
                       (([(''success'', JBool True),
                          (''thread_id'', JStr thread_id),
                          (''messages'', JArr conversation)], 200), w2))))"

subsection \<open>The reshaped messages, in the words of the specification\<close>

text \<open>
  A message has text when it has at least one text segment. It is readable when the
  attributes that the loop reads can be read: the segment list, and for a message with
  text the role, the value of the last segment and, when there is one, the creation time.
\<close>

definition has_text :: "ThreadMessage \<Rightarrow> bool" where
  "has_text msg = (case text_messages msg of Inl e \<Rightarrow> False | Inr segs \<Rightarrow> segs \<noteq> [])"

definition readable :: "ThreadMessage \<Rightarrow> bool" where
  "readable msg =
     (case text_messages msg of
        Inl e \<Rightarrow> False
      | Inr segs \<Rightarrow>
          segs = [] \<or>
          (case role msg of
             Inl e \<Rightarrow> False
           | Inr r \<Rightarrow>
               (case last segs of
                  Inl e \<Rightarrow> False
                | Inr c \<Rightarrow> (case created_at msg of Some (Inl e) \<Rightarrow> False | _ \<Rightarrow> True))))"

text \<open>
  The first exception met when the attributes of a message are read in the order of the
  loop: the segment list, then for a message with text the role, the value of the last
  segment and the creation time.
\<close>

definition read_failure :: "ThreadMessage \<Rightarrow> exn option" where
  "read_failure msg =
     (case text_messages msg of
        Inl e \<Rightarrow> Some e
      | Inr segs \<Rightarrow>
          if segs = [] then None
          else
            (case role msg of
               Inl e \<Rightarrow> Some e
             | Inr r \<Rightarrow>
                 (case last segs of
                    Inl e \<Rightarrow> Some e
                  | Inr c \<Rightarrow> (case created_at msg of Some (Inl e) \<Rightarrow> Some e | _ \<Rightarrow> None))))"

text \<open>
  The record \<open>{role, content, timestamp}\<close> of a message: the role as given, the value of
  the last text segment, and a timestamp, which is the creation time of the message when
  it has one.
\<close>

definition spec_record :: "string \<Rightarrow> string \<Rightarrow> string \<Rightarrow> json" where
  "spec_record r c ts = JObj [(''role'', JStr r), (''content'', JStr c), (''timestamp'', JStr ts)]"

definition is_record_of :: "ThreadMessage \<Rightarrow> json \<Rightarrow> bool" where
  "is_record_of msg entry =
     (case role msg of
        Inl e \<Rightarrow> False
      | Inr r \<Rightarrow>
          (case text_messages msg of
             Inl e \<Rightarrow> False
           | Inr segs \<Rightarrow>
               segs \<noteq> [] \<and>
               (case last segs of
                  Inl e \<Rightarrow> False
                | Inr c \<Rightarrow>
                    (case created_at msg of
                       Some (Inl e) \<Rightarrow> False
                     | Some (Inr t) \<Rightarrow> entry = spec_record r c t
                     | None \<Rightarrow>
                         (case getitem entry ''timestamp'' of
                            Inr (JStr ts) \<Rightarrow> entry = spec_record r c ts
                          | _ \<Rightarrow> False)))))"

subsection \<open>Concrete platforms for the examples\<close>

text \<open>
  A platform on which everything works: it creates thread \<open>t1\<close>, completes every run and
  lists two messages. The examples below change one operation at a time.
\<close>

definition demo_message :: "string \<Rightarrow> string \<Rightarrow> string \<Rightarrow> ThreadMessage" where
  "demo_message r c t = \<lparr>role = Inr r, text_messages = Inr [Inr c], created_at = Some (Inr t)\<rparr>"

definition demo_client :: client where
  "demo_client =
     \<lparr>get_agent = (\<lambda>h a. Inr \<lparr>agent_name = Some ''invoice''\<rparr>),
      threads_create = (\<lambda>h. Inr \<lparr>id' = ''t1''\<rparr>),
      messages_create = (\<lambda>h t r c. Inr ()),
      runs_create_and_process =
        (\<lambda>h t a. Inr \<lparr>status = ''completed'', last_error = ''None''\<rparr>),
      messages_list =
        (\<lambda>h t ord. Inr \<lparr>items = [demo_message ''user'' ''Hello'' ''2025-01-01T00:00:00'',
                                    demo_message ''assistant'' ''Hi'' ''2025-01-01T00:00:05''],
                           failure = None\<rparr>)\<rparr>"

definition demo_service :: service where
  "demo_service = \<lparr>project_client = demo_client, agent_id = Some ''agent-1''\<rparr>"

definition demo_clock :: "nat \<Rightarrow> string" where
  "demo_clock n = (if n = 0 then ''2025-01-01T00:01:00'' else ''2025-01-01T00:02:00'')"

definition w0 :: world where
  "w0 = \<lparr>calls = [], ticks = 0\<rparr>"

text \<open>An SDK whose client constructor rejects the endpoint it is given.\<close>

definition failing_sdk :: sdk where
  "failing_sdk =
     \<lparr>DefaultAzureCredential = Inr (),
      AIProjectClient = (\<lambda>endpoint. Inl (Exception ''Parameter endpoint must not be None.''))\<rparr>"

text \<open>The run ends with status \<open>failed\<close>.\<close>

definition failed_run_service :: service where
  "failed_run_service =
     \<lparr>project_client = demo_client\<lparr>runs_create_and_process :=
          (\<lambda>h t a. Inr \<lparr>status = ''failed'', last_error = ''rate limit exceeded''\<rparr>)\<rparr>,
      agent_id = Some ''agent-1''\<rparr>"

text \<open>The second listed message has a text segment whose value cannot be read.\<close>

definition malformed_page :: ItemPaged where
  "malformed_page =
     \<lparr>items = [demo_message ''user'' ''Hello'' ''2025-01-01T00:00:00'',
               \<lparr>role = Inr ''assistant'',
                text_messages = Inr [Inl (Exception ''segment has no text value'')],
                created_at = Some (Inr ''2025-01-01T00:00:05'')\<rparr>],
      failure = None\<rparr>"

definition malformed_service :: service where
  "malformed_service =
     \<lparr>project_client = demo_client\<lparr>messages_list := (\<lambda>h t ord. Inr malformed_page)\<rparr>,
      agent_id = Some ''agent-1''\<rparr>"

text \<open>Thread creation is refused.\<close>

definition no_threads_service :: service where
  "no_threads_service =
     \<lparr>project_client = demo_client\<lparr>threads_create :=
          (\<lambda>h. Inl (Exception ''connection refused''))\<rparr>,
      agent_id = Some ''agent-1''\<rparr>"

text \<open>The listing is refused.\<close>

definition no_listing_service :: service where
  "no_listing_service =
     \<lparr>project_client = demo_client\<lparr>messages_list :=
          (\<lambda>h t ord. Inl (Exception ''service unavailable''))\<rparr>,
      agent_id = Some ''agent-1''\<rparr>"

text \<open>
  An SDK that checks its required arguments: the constructor rejects a missing endpoint,
  the lookup a missing agent identifier.
\<close>

definition strict_client :: client where
  "strict_client =
     demo_client\<lparr>get_agent :=
       (\<lambda>h a. case a of
                 None \<Rightarrow> Inl (Exception ''No value for given attribute'')
               | Some name \<Rightarrow> Inr \<lparr>agent_name = Some ''invoice''\<rparr>)\<rparr>"

definition strict_sdk :: sdk where
  "strict_sdk =
     \<lparr>DefaultAzureCredential = Inr (),
      AIProjectClient =
        (\<lambda>endpoint. case endpoint of
                       None \<Rightarrow> Inl (Exception ''Parameter endpoint must not be None.'')
                     | Some url \<Rightarrow> Inr strict_client)\<rparr>"

text \<open>
  An environment that sets the endpoint and no agent identifier, and one that sets
  neither.
\<close>

definition endpoint_only :: "string \<rightharpoonup> string" where
  "endpoint_only = [''AZURE_AI_PROJECT_ENDPOINT'' \<mapsto> ''https://example.test'']"

definition unset :: "string \<rightharpoonup> string" where
  "unset = Map.empty"

text \<open>
  A listing whose second message has no text segment (an image); \<open>demo_page\<close> is the
  listing of \<open>demo_client\<close>.
\<close>

definition image_page :: ItemPaged where
  "image_page =
     \<lparr>items = [demo_message ''user'' ''Hello'' ''2025-01-01T00:00:00'',
               \<lparr>role = Inr ''assistant'', text_messages = Inr [],
                created_at = Some (Inr ''2025-01-01T00:00:05'')\<rparr>],
      failure = None\<rparr>"

definition image_service :: service where
  "image_service =
     \<lparr>project_client = demo_client\<lparr>messages_list := (\<lambda>h t ord. Inr image_page)\<rparr>,
      agent_id = Some ''agent-1''\<rparr>"

definition demo_page :: ItemPaged where
  "demo_page =
     \<lparr>items = [demo_message ''user'' ''Hello'' ''2025-01-01T00:00:00'',
               demo_message ''assistant'' ''Hi'' ''2025-01-01T00:00:05''],
      failure = None\<rparr>"

text \<open>The listing yields one message and then fails to fetch the next page.\<close>

definition broken_page :: ItemPaged where
  "broken_page =
     \<lparr>items = [demo_message ''user'' ''Hello'' ''2025-01-01T00:00:00''],
      failure = Some (Exception ''connection reset'')\<rparr>"

definition broken_listing_service :: service where
  "broken_listing_service =
     \<lparr>project_client = demo_client\<lparr>messages_list := (\<lambda>h t ord. Inr broken_page)\<rparr>,
      agent_id = Some ''agent-1''\<rparr>"

section \<open>Properties\<close>

subsection \<open>Platform calls made by the service\<close>

lemma format_message_calls: "calls (snd (format_message clock msg w)) = calls w"
  by (simp add: format_message_def now_isoformat_def split: sum.splits option.splits)

lemma format_conversation_calls:
  "calls (snd (format_conversation clock ms fl acc w)) = calls w"
proof (induction clock ms fl acc w rule: format_conversation.induct)
  case (3 clock msg msgs fl conversation w)
  show ?case
  proof (cases "format_message clock msg w")
    case (Pair r w')
    have c: "calls w' = calls w" using format_message_calls [of clock msg w] Pair by simp
    show ?thesis
    proof (cases r)
      case (Inl e)
      then show ?thesis using Pair c by simp
    next
      case (Inr entry)
      then show ?thesis using Pair c "3.IH" by (cases entry) auto
    qed
  qed
qed simp_all

lemma format_conversation_callsD:
  "format_conversation clock ms fl acc w = (r, w') \<Longrightarrow> calls w' = calls w"
  using format_conversation_calls [of clock ms fl acc w] by simp

text \<open>
  After the thread is settled the service makes one, two or three calls, all of them on
  that thread: post the user message, run the agent, list in ascending order.
\<close>

lemma post_and_run_calls:
  "\<exists>n. 1 \<le> n \<and> n \<le> 3 \<and>
       calls (snd (post_and_run svc clock m tid w)) =
         calls w @ take n [MessagesCreate tid ''user'' m,
                           RunsCreateAndProcess tid (agent_id svc),
                           MessagesList tid ASCENDING]"
proof -
  let ?cs = "[MessagesCreate tid ''user'' m, RunsCreateAndProcess tid (agent_id svc),
              MessagesList tid ASCENDING]"
  have "calls (snd (post_and_run svc clock m tid w)) = calls w @ take 1 ?cs
      \<or> calls (snd (post_and_run svc clock m tid w)) = calls w @ take 2 ?cs
      \<or> calls (snd (post_and_run svc clock m tid w)) = calls w @ take 3 ?cs"
    by (auto simp: post_and_run_def record_call_def Let_def split: sum.splits prod.splits
        dest: format_conversation_callsD)
  then show ?thesis
    by (elim disjE) (rule exI [of _ 1], simp, rule exI [of _ 2], simp, rule exI [of _ 3], simp)
qed

subsection \<open>Reshaping the listed messages\<close>

lemma format_message_readable:
  assumes "readable msg"
  shows "(\<not> has_text msg \<and> format_message clock msg w = (Inr None, w))
       \<or> (has_text msg \<and>
           (\<exists>entry w'. format_message clock msg w = (Inr (Some entry), w') \<and>
                        is_record_of msg entry))"
proof -
  from assms obtain segs where segs: "text_messages msg = Inr segs"
    by (cases "text_messages msg") (auto simp: readable_def)
  show ?thesis
  proof (cases "segs = []")
    case True
    then show ?thesis using segs by (simp add: has_text_def format_message_def)
  next
    case False
    from assms segs False obtain r where r: "role msg = Inr r"
      by (cases "role msg") (auto simp: readable_def)
    from assms segs False r obtain c where c: "last segs = Inr c"
      by (cases "last segs") (auto simp: readable_def)
    have ht: "has_text msg" using segs False by (simp add: has_text_def)
    show ?thesis
    proof (cases "created_at msg")
      case None
      have "format_message clock msg w =
              (Inr (Some (spec_record r c (clock (ticks w)))), w\<lparr>ticks := Suc (ticks w)\<rparr>)"
        using segs False r c None
        by (simp add: format_message_def now_isoformat_def spec_record_def)
      moreover have "is_record_of msg (spec_record r c (clock (ticks w)))"
        using segs False r c None by (simp add: is_record_of_def spec_record_def)
      ultimately show ?thesis using ht by blast
    next
      case (Some ts)
      from assms segs False r c Some obtain t where t: "ts = Inr t"
        by (cases ts) (auto simp: readable_def)
      have "format_message clock msg w = (Inr (Some (spec_record r c t)), w)"
        using segs False r c Some t by (simp add: format_message_def spec_record_def)
      moreover have "is_record_of msg (spec_record r c t)"
        using segs False r c Some t by (simp add: is_record_of_def)
      ultimately show ?thesis using ht by blast
    qed
  qed
qed

lemma format_conversation_readable:
  assumes "\<forall>msg\<in>set ms. readable msg"
  shows "\<exists>entries w'. format_conversation clock ms None acc w = (Inr (acc @ entries), w')
                     \<and> list_all2 is_record_of (filter has_text ms) entries"
  using assms
proof (induction ms arbitrary: acc w)
  case Nil
  then show ?case by simp
next
  case (Cons msg ms)
  have r: "readable msg" and rs: "\<forall>x\<in>set ms. readable x" using Cons.prems by simp_all
  from format_message_readable [OF r, of clock w] show ?case
  proof (elim disjE conjE exE)
    assume n: "\<not> has_text msg" and f: "format_message clock msg w = (Inr None, w)"
    from Cons.IH [OF rs, of acc w] obtain entries w' where
      "format_conversation clock ms None acc w = (Inr (acc @ entries), w')"
      "list_all2 is_record_of (filter has_text ms) entries" by blast
    then show ?thesis using n f by simp
  next
    fix entry w1
    assume y: "has_text msg" and f: "format_message clock msg w = (Inr (Some entry), w1)"
       and e: "is_record_of msg entry"
    from Cons.IH [OF rs, of "acc @ [entry]" w1] obtain entries w' where
      "format_conversation clock ms None (acc @ [entry]) w1 = (Inr ((acc @ [entry]) @ entries), w')"
      "list_all2 is_record_of (filter has_text ms) entries" by blast
    then have "format_conversation clock (msg # ms) None acc w = (Inr (acc @ (entry # entries)), w')
             \<and> list_all2 is_record_of (filter has_text (msg # ms)) (entry # entries)"
      using y f e by simp
    then show ?thesis by blast
  qed
qed

lemma format_message_stamped:
  assumes "has_text msg \<longrightarrow> created_at msg \<noteq> None"
  shows "format_message clock msg w = (fst (format_message clock' msg w'), w)"
  using assms
  by (auto simp: has_text_def format_message_def split: sum.splits option.splits)

lemma format_conversation_stamped:
  assumes "\<forall>msg\<in>set ms. has_text msg \<longrightarrow> created_at msg \<noteq> None"
  shows "format_conversation clock ms fl acc w =
           (fst (format_conversation clock' ms fl acc w'), w)"
  using assms
proof (induction ms arbitrary: acc)
  case Nil
  then show ?case by (cases fl) simp_all
next
  case (Cons msg ms)
  have m: "format_message clock msg w = (fst (format_message clock' msg w'), w)"
    using format_message_stamped [of msg clock w clock' w'] Cons.prems by simp
  have m': "format_message clock' msg w' = (fst (format_message clock' msg w'), w')"
    using format_message_stamped [of msg clock' w' clock' w'] Cons.prems by simp
  have rest: "\<forall>x\<in>set ms. has_text x \<longrightarrow> created_at x \<noteq> None" using Cons.prems by simp
  show ?case
  proof (cases "fst (format_message clock' msg w')")
    case (Inl e)
    then show ?thesis using m m' by simp
  next
    case (Inr entry)
    then show ?thesis using m m' Cons.IH [OF rest] by (cases entry) simp_all
  qed
qed

lemma format_message_unreadable:
  assumes "read_failure msg = Some e"
  shows "format_message clock msg w = (Inl e, w)"
  using assms
  by (auto simp: read_failure_def format_message_def split: sum.splits option.splits if_splits)

text \<open>Readable messages at the head of the listing only add their records.\<close>

lemma format_conversation_prefix:
  assumes "\<forall>msg\<in>set before. readable msg"
  shows "\<exists>entries w'. calls w' = calls w \<and>
           format_conversation clock (before @ rest) fl acc w =
           format_conversation clock rest fl (acc @ entries) w'"
  using assms
proof (induction before arbitrary: acc w)
  case Nil
  show ?case by (rule exI [of _ "[]"], rule exI [of _ w]) simp
next
  case (Cons msg before)
  have r: "readable msg" and rs: "\<forall>x\<in>set before. readable x" using Cons.prems by simp_all
  from format_message_readable [OF r, of clock w] show ?case
  proof (elim disjE conjE exE)
    assume f: "format_message clock msg w = (Inr None, w)"
    from Cons.IH [OF rs, of w acc] obtain entries w' where
      "calls w' = calls w"
      "format_conversation clock (before @ rest) fl acc w =
       format_conversation clock rest fl (acc @ entries) w'" by blast
    then show ?thesis using f by auto
  next
    fix entry w1
    assume f: "format_message clock msg w = (Inr (Some entry), w1)"
    have c1: "calls w1 = calls w" using format_message_calls [of clock msg w] f by simp
    from Cons.IH [OF rs, of w1 "acc @ [entry]"] obtain entries w' where
      "calls w' = calls w1"
      "format_conversation clock (before @ rest) fl (acc @ [entry]) w1 =
       format_conversation clock rest fl ((acc @ [entry]) @ entries) w'" by blast
    then have "calls w' = calls w \<and>
               format_conversation clock ((msg # before) @ rest) fl acc w =
               format_conversation clock rest fl (acc @ (entry # entries)) w'"
      using f c1 by simp
    then show ?thesis by blast
  qed
qed

text \<open>
  The loop raises when the listing fails after its last message, and when it comes to a
  message with an attribute that cannot be read.
\<close>

lemma format_conversation_raises:
  assumes "((\<forall>msg\<in>set (items ms). readable msg) \<and> failure ms = Some e)
         \<or> (\<exists>before msg after. items ms = before @ msg # after \<and>
               (\<forall>x\<in>set before. readable x) \<and> read_failure msg = Some e)"
  shows "fst (format_conversation clock (items ms) (failure ms) acc w) = Inl e"
  using assms
proof (elim disjE conjE exE)
  assume r: "\<forall>msg\<in>set (items ms). readable msg" and f: "failure ms = Some e"
  from format_conversation_prefix [OF r, of w clock "[]" "failure ms" acc]
  obtain entries w' where
    "format_conversation clock (items ms) (failure ms) acc w =
     format_conversation clock [] (failure ms) (acc @ entries) w'" by auto
  then show ?thesis using f by simp
next
  fix before msg after
  assume i: "items ms = before @ msg # after"
     and r: "\<forall>x\<in>set before. readable x"
     and u: "read_failure msg = Some e"
  from format_conversation_prefix [OF r, of w clock "msg # after" "failure ms" acc]
  obtain entries w' where
    "format_conversation clock (before @ msg # after) (failure ms) acc w =
     format_conversation clock (msg # after) (failure ms) (acc @ entries) w'" by auto
  then show ?thesis using i format_message_unreadable [OF u, of clock w'] by simp
qed

subsection \<open>Service unavailable\<close>

text \<open>
  Claim C5. When the construction of the service raised at start-up, the gateway is
  \<^verbatim>\<open>None\<close>; then the chat, new-thread and messages endpoints answer 503 with
  \<open>success = False\<close> and leave the world as it was (no platform call), and the health
  check answers 200 with \<open>agent_available = False\<close>, again without a platform call.
\<close>

theorem uninitialized_gateway_unavailable:
  assumes "fst (setup_client k env w0) = Inl e"
  shows "fst (invoice_service k env w0) = None
       \<and> chat_with_agent (fst (invoice_service k env w0)) clock req w =
           (([(''success'', JBool False),
              (''error'', JStr ''Invoice service not available'')], 503), w)
       \<and> create_new_thread (fst (invoice_service k env w0)) clock w =
           (([(''success'', JBool False),
              (''error'', JStr ''Invoice service not available'')], 503), w)
       \<and> get_thread_messages (fst (invoice_service k env w0)) clock tid w =
           (([(''success'', JBool False),
              (''error'', JStr ''Invoice service not available'')], 503), w)
       \<and> snd (fst (health_check (fst (invoice_service k env w0)) clock w)) = 200
       \<and> map_of (fst (fst (health_check (fst (invoice_service k env w0)) clock w)))
             ''agent_available'' = Some (JBool False)
       \<and> calls (snd (health_check (fst (invoice_service k env w0)) clock w)) = calls w"
proof -
  have none: "fst (invoice_service k env w0) = None"
    using assms by (cases "setup_client k env w0") (auto simp: invoice_service_def)
  show ?thesis
    unfolding none
    by (simp add: chat_with_agent_def create_new_thread_def get_thread_messages_def
        health_check_def not_available_def now_isoformat_def)
qed

theorem uninitialized_gateway_unavailable_witness:
  "fst (setup_client failing_sdk Map.empty w0) =
     Inl (Exception ''Parameter endpoint must not be None.'')
   \<and> fst (invoice_service failing_sdk Map.empty w0) = None
   \<and> chat_with_agent (fst (invoice_service failing_sdk Map.empty w0)) demo_clock
        \<lparr>get_json = Inr (JObj [(''message'', JStr ''Hello'')])\<rparr> w0 =
       (([(''success'', JBool False),
          (''error'', JStr ''Invoice service not available'')], 503), w0)
   \<and> get_thread_messages (fst (invoice_service failing_sdk Map.empty w0)) demo_clock ''t1'' w0 =
       (([(''success'', JBool False),
          (''error'', JStr ''Invoice service not available'')], 503), w0)"
proof -
  have h: "fst (setup_client failing_sdk Map.empty w0) =
             Inl (Exception ''Parameter endpoint must not be None.'')"
    by (simp add: setup_client_def failing_sdk_def)
  show ?thesis
    using h uninitialized_gateway_unavailable
              [OF h, of demo_clock "\<lparr>get_json = Inr (JObj [(''message'', JStr ''Hello'')])\<rparr>"
                  w0 "''t1''"]
    by blast
qed

subsection \<open>What an envelope carries\<close>

lemma contains_key: "map_of kvs key = Some v \<Longrightarrow> contains key (JObj kvs) = Inr True"
  by (auto dest!: map_of_SomeD intro: rev_image_eqI)

lemma post_and_run_raised:
  "post_and_run svc clock m tid w = (Inl (e, t'), w') \<Longrightarrow> t' = tid"
  by (auto simp: post_and_run_def Let_def split: sum.splits prod.splits if_splits)

lemma post_and_run_returned:
  "post_and_run svc clock m tid w = (Inr env, w') \<Longrightarrow>
     map_of env ''thread_id'' = Some tid \<and> (\<exists>b. map_of env ''success'' = Some (JBool b))"
  by (auto simp: post_and_run_def Let_def split: sum.splits prod.splits if_splits)

text \<open>
  The thread identifier of an envelope: the one passed in when it is truthy, otherwise the
  one of the thread just created, otherwise (creation raised) the falsy value passed in.
\<close>

lemma process_invoice_message_thread_id:
  "map_of (fst (process_invoice_message svc clock m t w)) ''thread_id'' =
     Some (if truthy t then t
           else case threads_create (project_client svc) (calls w) of
                  Inl e \<Rightarrow> t
                | Inr th \<Rightarrow> JStr (id' th))"
proof -
  have run: "map_of (fst (case post_and_run svc clock m tid w1 of
                     (Inl (e, tid'), w') \<Rightarrow>
                        ([(''success'', JBool False),
                          (''error'', JStr (''Error processing message: '' @ str e)),
                          (''thread_id'', tid')], w')
                   | (Inr result, w') \<Rightarrow> (result, w'))) ''thread_id'' = Some tid"
    for tid w1
  proof (cases "post_and_run svc clock m tid w1")
    case (Pair r w')
    show ?thesis
    proof (cases r)
      case (Inl p)
      then show ?thesis using Pair post_and_run_raised [of svc clock m tid w1 "fst p" "snd p" w']
        by (cases p) simp
    next
      case (Inr env)
      then show ?thesis using Pair post_and_run_returned [of svc clock m tid w1 env w'] by simp
    qed
  qed
  show ?thesis
  proof (cases "truthy t")
    case True
    then show ?thesis using run [of t w] by (simp add: process_invoice_message_def process_try_def)
  next
    case False
    show ?thesis
    proof (cases "threads_create (project_client svc) (calls w)")
      case (Inl e)
      then show ?thesis using False by (simp add: process_invoice_message_def process_try_def)
    next
      case (Inr th)
      then show ?thesis using False run [of "JStr (id' th)" "record_call ThreadsCreate w"]
        by (simp add: process_invoice_message_def process_try_def)
    qed
  qed
qed

lemma process_invoice_message_success:
  "\<exists>b. map_of (fst (process_invoice_message svc clock m t w)) ''success'' = Some (JBool b)"
proof -
  have run: "\<exists>b. map_of (fst (case post_and_run svc clock m tid w1 of
                     (Inl (e, tid'), w') \<Rightarrow>
                        ([(''success'', JBool False),
                          (''error'', JStr (''Error processing message: '' @ str e)),
                          (''thread_id'', tid')], w')
                   | (Inr result, w') \<Rightarrow> (result, w'))) ''success'' = Some (JBool b)"
    for tid w1
  proof (cases "post_and_run svc clock m tid w1")
    case (Pair r w')
    show ?thesis
    proof (cases r)
      case (Inl p)
      then show ?thesis using Pair by (cases p) auto
    next
      case (Inr env)
      then show ?thesis using Pair post_and_run_returned [of svc clock m tid w1 env w'] by simp
    qed
  qed
  show ?thesis
    using run [of t w] run [of _ "record_call ThreadsCreate w"]
    by (auto simp: process_invoice_message_def process_try_def split: sum.splits)
qed

text \<open>
  A chat request whose body is a dict with a \<open>message\<close> is handed to the service; the
  envelope comes back unchanged, with status 200 or 500 after its \<open>success\<close> flag.
\<close>

lemma chat_delegates:
  assumes "get_json req = Inr (JObj kvs)" and "map_of kvs ''message'' = Some m"
  shows "chat_with_agent (Some svc) clock req w =
           (case process_invoice_message svc clock m
                   (case map_of kvs ''thread_id'' of None \<Rightarrow> JNull | Some v \<Rightarrow> v) w of
              (result, w') \<Rightarrow>
                ((result, if map_of result ''success'' = Some (JBool True) then 200 else 500), w'))"
proof -
  let ?t = "case map_of kvs ''thread_id'' of None \<Rightarrow> JNull | Some v \<Rightarrow> v"
  obtain result w' where p: "process_invoice_message svc clock m ?t w = (result, w')"
    by (cases "process_invoice_message svc clock m ?t w")
  obtain b where b: "map_of result ''success'' = Some (JBool b)"
    using process_invoice_message_success [of svc clock m ?t w] p by auto
  have ne: "kvs \<noteq> []" using assms(2) by auto
  show ?thesis
    using assms contains_key [OF assms(2)] ne p b
    by (simp add: chat_with_agent_def chat_try_def Let_def)
qed

subsection \<open>A failed run\<close>

text \<open>
  Claim C2. Take a chat request whose body is a dict with a \<open>message\<close>, let the thread be
  settled (given and truthy, or created), the user message posted, and the run come back
  with status \<open>failed\<close>. Then \<open>process_invoice_message\<close> returns the envelope
  \<open>success = False\<close>, \<open>error = "Agent run failed: "\<close> followed by the platform's error
  detail, and the thread identifier; the chat endpoint returns this envelope with status
  500, so the thread identifier is in the body.
\<close>

theorem failed_run_reported:
  assumes body: "get_json req = Inr (JObj kvs)"
      and msg: "map_of kvs ''message'' = Some m"
      and given: "t = (case map_of kvs ''thread_id'' of None \<Rightarrow> JNull | Some v \<Rightarrow> v)"
      and settled: "truthy t \<or> threads_create (project_client svc) (calls w) = Inr th"
      and tid: "tid = (if truthy t then t else JStr (id' th))"
      and h: "h = (if truthy t then calls w else calls w @ [ThreadsCreate])"
      and posted: "messages_create (project_client svc) h tid ''user'' m = Inr u"
      and ran: "runs_create_and_process (project_client svc)
                  (h @ [MessagesCreate tid ''user'' m]) tid (agent_id svc) = Inr r"
      and failed: "status r = ''failed''"
  shows "fst (process_invoice_message svc clock m t w) =
           [(''success'', JBool False),
            (''error'', JStr (''Agent run failed: '' @ last_error r)),
            (''thread_id'', tid)]
       \<and> fst (chat_with_agent (Some svc) clock req w) =
           ([(''success'', JBool False),
             (''error'', JStr (''Agent run failed: '' @ last_error r)),
             (''thread_id'', tid)], 500)"
proof -
  let ?env = "[(''success'', JBool False),
               (''error'', JStr (''Agent run failed: '' @ last_error r)),
               (''thread_id'', tid)]"
  have pr: "fst (post_and_run svc clock m tid (w\<lparr>calls := h\<rparr>)) = Inr ?env"
    using posted ran failed by (simp add: post_and_run_def record_call_def Let_def)
  have pt: "fst (process_try svc clock m t w) = Inr ?env"
  proof (cases "truthy t")
    case True
    then show ?thesis using pr tid h by (simp add: process_try_def)
  next
    case False
    then have "threads_create (project_client svc) (calls w) = Inr th" using settled by simp
    then show ?thesis using False pr tid h by (simp add: process_try_def record_call_def)
  qed
  have pim: "fst (process_invoice_message svc clock m t w) = ?env"
    using pt by (cases "process_try svc clock m t w") (auto simp: process_invoice_message_def)
  have "fst (chat_with_agent (Some svc) clock req w) = (?env, 500)"
    using chat_delegates [OF body msg, of svc clock w] pim given
    by (cases "process_invoice_message svc clock m t w") simp
  with pim show ?thesis by simp
qed

theorem failed_run_reported_witness:
  "fst (process_invoice_message failed_run_service demo_clock (JStr ''Hello'') (JStr ''t1'') w0) =
     [(''success'', JBool False),
      (''error'', JStr ''Agent run failed: rate limit exceeded''),
      (''thread_id'', JStr ''t1'')]
   \<and> fst (chat_with_agent (Some failed_run_service) demo_clock
            \<lparr>get_json = Inr (JObj [(''message'', JStr ''Hello''),
                                    (''thread_id'', JStr ''t1'')])\<rparr> w0) =
       ([(''success'', JBool False),
         (''error'', JStr ''Agent run failed: rate limit exceeded''),
         (''thread_id'', JStr ''t1'')], 500)"
  using failed_run_reported
     [of "\<lparr>get_json = Inr (JObj [(''message'', JStr ''Hello''), (''thread_id'', JStr ''t1'')])\<rparr>"
         "[(''message'', JStr ''Hello''), (''thread_id'', JStr ''t1'')]" "JStr ''Hello''"
         "JStr ''t1''" failed_run_service w0 "\<lparr>id' = ''unused''\<rparr>" "JStr ''t1''" "[]" "()"
         "\<lparr>status = ''failed'', last_error = ''rate limit exceeded''\<rparr>" demo_clock]
  by (simp add: failed_run_service_def demo_client_def w0_def)

subsection \<open>Exceptions inside the service\<close>

text \<open>
  Claim C3. Let an exception \<open>e\<close> be raised at one of the five steps of
  \<open>process_invoice_message\<close>: creating the thread, posting the user message, running the
  agent, listing the messages, or reshaping them. Reshaping raises when the listing
  fails while it is iterated (after its readable messages it raises \<open>e\<close>) and when,
  after readable messages, a message comes whose attribute cannot be read (reading it
  raises \<open>e\<close>). Let \<open>known\<close> be the value of the thread identifier at that point: the
  new or given identifier once the thread is settled, the value passed in when creation
  itself raised. Then the call returns the envelope \<open>success = False\<close>,
  \<open>error = "Error processing message: "\<close> followed by the description of \<open>e\<close>, and
  \<open>thread_id = known\<close>. The function returns an envelope on every input: nothing is
  raised to the caller. Exceptions are the instances of \<^verbatim>\<open>Exception\<close>, which is what the
  handler of line 108 catches; what is raised outside that class (an interrupt, an exit
  of the interpreter) is not modelled.
\<close>

theorem exceptions_become_envelopes:
  assumes tid: "tid = (if truthy t then t else JStr (id' th))"
      and h: "h = (if truthy t then calls w else calls w @ [ThreadsCreate])"
      and h1: "h1 = h @ [MessagesCreate tid ''user'' m]"
      and h2: "h2 = h1 @ [RunsCreateAndProcess tid (agent_id svc)]"
      and raised:
        "(\<not> truthy t \<and> threads_create (project_client svc) (calls w) = Inl e \<and> known = t)
       \<or> ((truthy t \<or> threads_create (project_client svc) (calls w) = Inr th) \<and> known = tid \<and>
           (messages_create (project_client svc) h tid ''user'' m = Inl e
          \<or> (messages_create (project_client svc) h tid ''user'' m = Inr u \<and>
              (runs_create_and_process (project_client svc) h1 tid (agent_id svc) = Inl e
             \<or> (runs_create_and_process (project_client svc) h1 tid (agent_id svc) = Inr r \<and>
                 status r \<noteq> ''failed'' \<and>
                 (messages_list (project_client svc) h2 tid ASCENDING = Inl e
                \<or> (messages_list (project_client svc) h2 tid ASCENDING = Inr ms \<and>
                    (((\<forall>msg\<in>set (items ms). readable msg) \<and> failure ms = Some e)
                     \<or> (\<exists>before msg after.
                           items ms = before @ msg # after \<and>
                           (\<forall>x\<in>set before. readable x) \<and>
                           read_failure msg = Some e)))))))))"
  shows "fst (process_invoice_message svc clock m t w) =
           [(''success'', JBool False),
            (''error'', JStr (''Error processing message: '' @ str e)),
            (''thread_id'', known)]"
proof -
  let ?w3 = "w\<lparr>calls := h2 @ [MessagesList tid ASCENDING]\<rparr>"
  let ?reshaping =
      "((\<forall>msg\<in>set (items ms). readable msg) \<and> failure ms = Some e)
       \<or> (\<exists>before msg after.
             items ms = before @ msg # after \<and>
             (\<forall>x\<in>set before. readable x) \<and>
             read_failure msg = Some e)"
  let ?steps =
      "messages_create (project_client svc) h tid ''user'' m = Inl e
       \<or> (messages_create (project_client svc) h tid ''user'' m = Inr u \<and>
           (runs_create_and_process (project_client svc) h1 tid (agent_id svc) = Inl e
          \<or> (runs_create_and_process (project_client svc) h1 tid (agent_id svc) = Inr r \<and>
              status r \<noteq> ''failed'' \<and>
              (messages_list (project_client svc) h2 tid ASCENDING = Inl e
             \<or> (messages_list (project_client svc) h2 tid ASCENDING = Inr ms \<and>
                 fst (format_conversation clock (items ms) (failure ms) [] ?w3) = Inl e)))))"
  have loop: "fst (format_conversation clock (items ms) (failure ms) [] ?w3) = Inl e"
    if ?reshaping
    using that by (rule format_conversation_raises)
  from raised loop consider
      (creating) "\<not> truthy t" "threads_create (project_client svc) (calls w) = Inl e" "known = t"
    | (later) "truthy t \<or> threads_create (project_client svc) (calls w) = Inr th"
              "known = tid" ?steps
    by blast
  then show ?thesis
  proof cases
    case creating
    then show ?thesis by (simp add: process_invoice_message_def process_try_def)
  next
    case later
    have reduce: "process_try svc clock m t w = post_and_run svc clock m tid (w\<lparr>calls := h\<rparr>)"
      using later(1) tid h by (cases "truthy t") (auto simp: process_try_def record_call_def)
    have "fst (post_and_run svc clock m tid (w\<lparr>calls := h\<rparr>)) = Inl (e, tid)"
      using later(3) h1 h2
      by (auto simp: post_and_run_def record_call_def Let_def split: prod.splits)
    then show ?thesis
      using reduce later(2)
      by (cases "post_and_run svc clock m tid (w\<lparr>calls := h\<rparr>)")
         (simp add: process_invoice_message_def)
  qed
qed

theorem exceptions_become_envelopes_witness:
  "fst (process_invoice_message no_threads_service demo_clock (JStr ''Hello'') JNull w0) =
     [(''success'', JBool False),
      (''error'', JStr ''Error processing message: connection refused''),
      (''thread_id'', JNull)]
   \<and> fst (process_invoice_message malformed_service demo_clock (JStr ''Hello'') (JStr ''t7'') w0) =
     [(''success'', JBool False),
      (''error'', JStr ''Error processing message: segment has no text value''),
      (''thread_id'', JStr ''t7'')]
   \<and> fst (process_invoice_message broken_listing_service demo_clock (JStr ''Hello'')
            (JStr ''t7'') w0) =
     [(''success'', JBool False),
      (''error'', JStr ''Error processing message: connection reset''),
      (''thread_id'', JStr ''t7'')]"
proof -
  have a: "fst (process_invoice_message no_threads_service demo_clock (JStr ''Hello'') JNull w0) =
     [(''success'', JBool False),
      (''error'', JStr ''Error processing message: connection refused''),
      (''thread_id'', JNull)]"
    using exceptions_become_envelopes
      [of "JStr ''unused''" JNull "\<lparr>id' = ''unused''\<rparr>" "[ThreadsCreate]" w0 _ "JStr ''Hello''" _
          no_threads_service "Exception ''connection refused''" JNull]
    by (simp add: no_threads_service_def demo_client_def w0_def)
  have unreadable:
    "\<exists>before msg after.
        items malformed_page = before @ msg # after \<and>
        (\<forall>x\<in>set before. readable x) \<and>
        read_failure msg = Some (Exception ''segment has no text value'')"
  proof (intro exI conjI)
    show "items malformed_page =
            [demo_message ''user'' ''Hello'' ''2025-01-01T00:00:00''] @
            \<lparr>role = Inr ''assistant'',
             text_messages = Inr [Inl (Exception ''segment has no text value'')],
             created_at = Some (Inr ''2025-01-01T00:00:05'')\<rparr> # []"
      by (simp add: malformed_page_def)
    show "\<forall>x\<in>set [demo_message ''user'' ''Hello'' ''2025-01-01T00:00:00'']. readable x"
      by (simp add: demo_message_def readable_def)
    show "read_failure \<lparr>role = Inr ''assistant'',
             text_messages = Inr [Inl (Exception ''segment has no text value'')],
             created_at = Some (Inr ''2025-01-01T00:00:05'')\<rparr> =
            Some (Exception ''segment has no text value'')"
      by (simp add: read_failure_def)
  qed
  have b: "fst (process_invoice_message malformed_service demo_clock (JStr ''Hello'')
                  (JStr ''t7'') w0) =
     [(''success'', JBool False),
      (''error'', JStr ''Error processing message: segment has no text value''),
      (''thread_id'', JStr ''t7'')]"
    using exceptions_become_envelopes
      [of "JStr ''t7''" "JStr ''t7''" "\<lparr>id' = ''unused''\<rparr>" "[]" w0 _ "JStr ''Hello''" _
          malformed_service "Exception ''segment has no text value''"
          "JStr ''t7''" "()" "\<lparr>status = ''completed'', last_error = ''None''\<rparr>"
          malformed_page demo_clock]
      unreadable
    by (simp add: malformed_service_def demo_client_def w0_def)
  have iterated: "(\<forall>msg\<in>set (items broken_page). readable msg)
                \<and> failure broken_page = Some (Exception ''connection reset'')"
    by (simp add: broken_page_def demo_message_def readable_def)
  have c: "fst (process_invoice_message broken_listing_service demo_clock (JStr ''Hello'')
                  (JStr ''t7'') w0) =
     [(''success'', JBool False),
      (''error'', JStr ''Error processing message: connection reset''),
      (''thread_id'', JStr ''t7'')]"
    using exceptions_become_envelopes
      [of "JStr ''t7''" "JStr ''t7''" "\<lparr>id' = ''unused''\<rparr>" "[]" w0 _ "JStr ''Hello''" _
          broken_listing_service "Exception ''connection reset''"
          "JStr ''t7''" "()" "\<lparr>status = ''completed'', last_error = ''None''\<rparr>"
          broken_page demo_clock]
      iterated
    by (simp add: broken_listing_service_def demo_client_def w0_def)
  from a b c show ?thesis by blast
qed

subsection \<open>Which thread a chat call uses\<close>

lemma process_invoice_message_calls_given:
  assumes "truthy t"
  shows "\<exists>n. 1 \<le> n \<and> n \<le> 3 \<and>
           calls (snd (process_invoice_message svc clock m t w)) =
             calls w @ take n [MessagesCreate t ''user'' m,
                               RunsCreateAndProcess t (agent_id svc),
                               MessagesList t ASCENDING]"
proof -
  have "calls (snd (process_invoice_message svc clock m t w)) =
          calls (snd (post_and_run svc clock m t w))"
    using assms
    by (cases "post_and_run svc clock m t w")
       (auto simp: process_invoice_message_def process_try_def split: sum.splits)
  then show ?thesis using post_and_run_calls [of svc clock m t w] by simp
qed

lemma process_invoice_message_calls_created:
  assumes "\<not> truthy t" and "threads_create (project_client svc) (calls w) = Inr th"
  shows "\<exists>n. 1 \<le> n \<and> n \<le> 3 \<and>
           calls (snd (process_invoice_message svc clock m t w)) =
             calls w @ ThreadsCreate #
               take n [MessagesCreate (JStr (id' th)) ''user'' m,
                       RunsCreateAndProcess (JStr (id' th)) (agent_id svc),
                       MessagesList (JStr (id' th)) ASCENDING]"
proof -
  let ?w1 = "record_call ThreadsCreate w"
  have "calls (snd (process_invoice_message svc clock m t w)) =
          calls (snd (post_and_run svc clock m (JStr (id' th)) ?w1))"
    using assms
    by (cases "post_and_run svc clock m (JStr (id' th)) ?w1")
       (auto simp: process_invoice_message_def process_try_def split: sum.splits)
  then show ?thesis
    using post_and_run_calls [of svc clock m "JStr (id' th)" ?w1]
    by (simp add: record_call_def)
qed

lemma process_invoice_message_calls_refused:
  assumes "\<not> truthy t" and "threads_create (project_client svc) (calls w) = Inl e"
  shows "calls (snd (process_invoice_message svc clock m t w)) = calls w @ [ThreadsCreate]"
  using assms by (simp add: process_invoice_message_def process_try_def record_call_def)

text \<open>A falsy thread identifier is not looked at again once the thread is created.\<close>

lemma process_invoice_message_falsy:
  assumes "\<not> truthy t" and "\<not> truthy t'"
      and "threads_create (project_client svc) (calls w) = Inr th"
  shows "process_invoice_message svc clock m t w = process_invoice_message svc clock m t' w"
  using assms by (simp add: process_invoice_message_def process_try_def)

text \<open>
  Claim C6, as the code has it. A thread identifier that is absent or falsy (\<^verbatim>\<open>None\<close>,
  the empty string, zero, \<^verbatim>\<open>False\<close>, an empty list or dict) makes thread creation the
  first platform call; when creation returns a thread, its identifier is the one of every
  later call and of the envelope. A truthy thread identifier means no thread creation:
  the calls are the posting of the user message to the given thread, then the run and the
  listing on it, and the envelope returns the identifier unchanged.
\<close>

theorem thread_created_or_reused:
  "(\<not> truthy t \<longrightarrow>
       (\<exists>rest. calls (snd (process_invoice_message svc clock m t w)) =
                  calls w @ ThreadsCreate # rest)
     \<and> (\<forall>th. threads_create (project_client svc) (calls w) = Inr th \<longrightarrow>
           map_of (fst (process_invoice_message svc clock m t w)) ''thread_id'' =
             Some (JStr (id' th))
         \<and> (\<exists>n. 1 \<le> n \<and> n \<le> 3 \<and>
               calls (snd (process_invoice_message svc clock m t w)) =
                 calls w @ ThreadsCreate #
                   take n [MessagesCreate (JStr (id' th)) ''user'' m,
                           RunsCreateAndProcess (JStr (id' th)) (agent_id svc),
                           MessagesList (JStr (id' th)) ASCENDING])))
 \<and> (truthy t \<longrightarrow>
       map_of (fst (process_invoice_message svc clock m t w)) ''thread_id'' = Some t
     \<and> (\<exists>n. 1 \<le> n \<and> n \<le> 3 \<and>
           calls (snd (process_invoice_message svc clock m t w)) =
             calls w @ take n [MessagesCreate t ''user'' m,
                               RunsCreateAndProcess t (agent_id svc),
                               MessagesList t ASCENDING]))"
proof (intro conjI impI allI)
  assume f: "\<not> truthy t"
  show "\<exists>rest. calls (snd (process_invoice_message svc clock m t w)) =
                  calls w @ ThreadsCreate # rest"
  proof (cases "threads_create (project_client svc) (calls w)")
    case (Inl e)
    then show ?thesis using process_invoice_message_calls_refused [OF f Inl] by simp
  next
    case (Inr th)
    then show ?thesis using process_invoice_message_calls_created [OF f Inr, of clock m] by blast
  qed
next
  fix th
  assume f: "\<not> truthy t" and c: "threads_create (project_client svc) (calls w) = Inr th"
  show "map_of (fst (process_invoice_message svc clock m t w)) ''thread_id'' =
          Some (JStr (id' th))"
    using f c by (simp add: process_invoice_message_thread_id)
  show "\<exists>n. 1 \<le> n \<and> n \<le> 3 \<and>
               calls (snd (process_invoice_message svc clock m t w)) =
                 calls w @ ThreadsCreate #
                   take n [MessagesCreate (JStr (id' th)) ''user'' m,
                           RunsCreateAndProcess (JStr (id' th)) (agent_id svc),
                           MessagesList (JStr (id' th)) ASCENDING]"
    by (rule process_invoice_message_calls_created [OF f c])
next
  assume g: "truthy t"
  show "map_of (fst (process_invoice_message svc clock m t w)) ''thread_id'' = Some t"
    using g by (simp add: process_invoice_message_thread_id)
  show "\<exists>n. 1 \<le> n \<and> n \<le> 3 \<and>
           calls (snd (process_invoice_message svc clock m t w)) =
             calls w @ take n [MessagesCreate t ''user'' m,
                               RunsCreateAndProcess t (agent_id svc),
                               MessagesList t ASCENDING]"
    by (rule process_invoice_message_calls_given [OF g])
qed

theorem thread_created_or_reused_witness:
  "map_of (fst (process_invoice_message demo_service demo_clock (JStr ''Hello'') (JStr ''t9'') w0))
      ''thread_id'' = Some (JStr ''t9'')
   \<and> (\<exists>n. 1 \<le> n \<and> n \<le> 3 \<and>
         calls (snd (process_invoice_message demo_service demo_clock (JStr ''Hello'')
                       (JStr ''t9'') w0)) =
           take n [MessagesCreate (JStr ''t9'') ''user'' (JStr ''Hello''),
                   RunsCreateAndProcess (JStr ''t9'') (Some ''agent-1''),
                   MessagesList (JStr ''t9'') ASCENDING])
   \<and> map_of (fst (process_invoice_message demo_service demo_clock (JStr ''Hello'') JNull w0))
      ''thread_id'' = Some (JStr ''t1'')"
proof -
  have created: "threads_create (project_client demo_service) (calls w0) = Inr \<lparr>id' = ''t1''\<rparr>"
    by (simp add: demo_service_def demo_client_def)
  have given: "truthy (JStr ''t9'')" and absent: "\<not> truthy JNull"
    by simp_all
  show ?thesis
    using thread_created_or_reused [of "JStr ''t9''" demo_service demo_clock "JStr ''Hello''" w0]
          thread_created_or_reused [of JNull demo_service demo_clock "JStr ''Hello''" w0]
          created given absent
    by (simp add: demo_service_def w0_def)
qed

text \<open>
  The claim as written (an explicit thread identifier means no new thread) fails for an
  explicit empty string: a thread is created and the envelope carries the new identifier.
\<close>

theorem explicit_empty_thread_id_counterexample:
  "chat_with_agent (Some demo_service) demo_clock
     \<lparr>get_json = Inr (JObj [(''message'', JStr ''Hello''), (''thread_id'', JStr [])])\<rparr> w0 =
   (([(''success'', JBool True),
      (''thread_id'', JStr ''t1''),
      (''conversation'',
         JArr [JObj [(''role'', JStr ''user''), (''content'', JStr ''Hello''),
                     (''timestamp'', JStr ''2025-01-01T00:00:00'')],
               JObj [(''role'', JStr ''assistant''), (''content'', JStr ''Hi''),
                     (''timestamp'', JStr ''2025-01-01T00:00:05'')]]),
      (''run_status'', JStr ''completed'')], 200),
    \<lparr>calls = [ThreadsCreate,
              MessagesCreate (JStr ''t1'') ''user'' (JStr ''Hello''),
              RunsCreateAndProcess (JStr ''t1'') (Some ''agent-1''),
              MessagesList (JStr ''t1'') ASCENDING],
     ticks = 0\<rparr>)"
  by (simp add: chat_with_agent_def chat_try_def process_invoice_message_def process_try_def
      post_and_run_def format_message_def demo_service_def demo_client_def demo_message_def
      record_call_def w0_def Let_def)

text \<open>
  Claim C10, as the code has it. A chat request whose body has a \<open>thread_id\<close> key with a
  falsy value is treated as one without the key: thread creation is the first platform
  call, and when creation returns a thread, the response carries the new thread's
  identifier, the later calls go to the new thread, and response and calls are those of
  the same request without the key.
\<close>

theorem falsy_thread_id_is_absent:
  assumes body: "get_json req = Inr (JObj kvs)"
      and msg: "map_of kvs ''message'' = Some m"
      and key: "map_of kvs ''thread_id'' = Some t"
      and falsy: "\<not> truthy t"
  shows "(\<exists>rest. calls (snd (chat_with_agent (Some svc) clock req w)) =
                   calls w @ ThreadsCreate # rest)
       \<and> (\<forall>th. threads_create (project_client svc) (calls w) = Inr th \<longrightarrow>
              map_of (fst (fst (chat_with_agent (Some svc) clock req w))) ''thread_id'' =
                Some (JStr (id' th))
            \<and> (\<exists>n. 1 \<le> n \<and> n \<le> 3 \<and>
                  calls (snd (chat_with_agent (Some svc) clock req w)) =
                    calls w @ ThreadsCreate #
                      take n [MessagesCreate (JStr (id' th)) ''user'' m,
                              RunsCreateAndProcess (JStr (id' th)) (agent_id svc),
                              MessagesList (JStr (id' th)) ASCENDING])
            \<and> chat_with_agent (Some svc) clock req w =
                chat_with_agent (Some svc) clock \<lparr>get_json = Inr (JObj [(''message'', m)])\<rparr> w)"
proof -
  obtain result w' where p: "process_invoice_message svc clock m t w = (result, w')"
    by (cases "process_invoice_message svc clock m t w")
  have chat: "chat_with_agent (Some svc) clock req w =
                ((result, if map_of result ''success'' = Some (JBool True) then 200 else 500), w')"
    using chat_delegates [OF body msg, of svc clock w] key p by simp
  have first: "\<exists>rest. calls w' = calls w @ ThreadsCreate # rest"
  proof (cases "threads_create (project_client svc) (calls w)")
    case (Inl e)
    then show ?thesis
      using process_invoice_message_calls_refused [OF falsy Inl, of clock m] p by simp
  next
    case (Inr th)
    then show ?thesis
      using process_invoice_message_calls_created [OF falsy Inr, of clock m] p by auto
  qed
  have created: "map_of result ''thread_id'' = Some (JStr (id' th))
       \<and> (\<exists>n. 1 \<le> n \<and> n \<le> 3 \<and>
             calls w' =
               calls w @ ThreadsCreate #
                 take n [MessagesCreate (JStr (id' th)) ''user'' m,
                         RunsCreateAndProcess (JStr (id' th)) (agent_id svc),
                         MessagesList (JStr (id' th)) ASCENDING])
       \<and> chat_with_agent (Some svc) clock \<lparr>get_json = Inr (JObj [(''message'', m)])\<rparr> w =
           ((result, if map_of result ''success'' = Some (JBool True) then 200 else 500), w')"
    if c: "threads_create (project_client svc) (calls w) = Inr th" for th
  proof -
    have "process_invoice_message svc clock m JNull w = (result, w')"
      using process_invoice_message_falsy [OF falsy _ c, of JNull clock m] p by simp
    then have absent:
      "chat_with_agent (Some svc) clock \<lparr>get_json = Inr (JObj [(''message'', m)])\<rparr> w =
         ((result, if map_of result ''success'' = Some (JBool True) then 200 else 500), w')"
      using chat_delegates [of "\<lparr>get_json = Inr (JObj [(''message'', m)])\<rparr>" "[(''message'', m)]" m
                               svc clock w]
      by simp
    have tid: "map_of result ''thread_id'' = Some (JStr (id' th))"
      using process_invoice_message_thread_id [of svc clock m t w] p falsy c by simp
    have cs: "\<exists>n. 1 \<le> n \<and> n \<le> 3 \<and>
               calls w' =
                 calls w @ ThreadsCreate #
                   take n [MessagesCreate (JStr (id' th)) ''user'' m,
                           RunsCreateAndProcess (JStr (id' th)) (agent_id svc),
                           MessagesList (JStr (id' th)) ASCENDING]"
      using process_invoice_message_calls_created [OF falsy c, of clock m] p by simp
    show ?thesis using absent tid cs by simp
  qed
  show ?thesis using chat first created by simp
qed

theorem falsy_thread_id_is_absent_witness:
  "map_of (fst (fst (chat_with_agent (Some demo_service) demo_clock
       \<lparr>get_json = Inr (JObj [(''message'', JStr ''Hello''), (''thread_id'', JStr [])])\<rparr> w0)))
     ''thread_id'' = Some (JStr ''t1'')
   \<and> chat_with_agent (Some demo_service) demo_clock
       \<lparr>get_json = Inr (JObj [(''message'', JStr ''Hello''), (''thread_id'', JStr [])])\<rparr> w0 =
     chat_with_agent (Some demo_service) demo_clock
       \<lparr>get_json = Inr (JObj [(''message'', JStr ''Hello'')])\<rparr> w0"
proof -
  have created: "threads_create (project_client demo_service) (calls w0) = Inr \<lparr>id' = ''t1''\<rparr>"
    by (simp add: demo_service_def demo_client_def)
  have key: "map_of [(''message'', JStr ''Hello''), (''thread_id'', JStr [])] ''thread_id'' =
               Some (JStr [])"
    by simp
  have msg: "map_of [(''message'', JStr ''Hello''), (''thread_id'', JStr [])] ''message'' =
               Some (JStr ''Hello'')"
    by simp
  have falsy: "\<not> truthy (JStr [])" by simp
  have body: "get_json \<lparr>get_json = Inr (JObj [(''message'', JStr ''Hello''),
                                               (''thread_id'', JStr [])])\<rparr> =
                Inr (JObj [(''message'', JStr ''Hello''), (''thread_id'', JStr [])])"
    by simp
  note r = falsy_thread_id_is_absent [OF body msg key falsy, of demo_service demo_clock w0]
  note r2 = mp [OF spec [OF conjunct2 [OF r], of "\<lparr>id' = ''t1''\<rparr>"] created]
  have a: "map_of (fst (fst (chat_with_agent (Some demo_service) demo_clock
       \<lparr>get_json = Inr (JObj [(''message'', JStr ''Hello''), (''thread_id'', JStr [])])\<rparr> w0)))
     ''thread_id'' = Some (JStr ''t1'')"
    using conjunct1 [OF r2] by simp
  show ?thesis
    using a conjunct2 [OF conjunct2 [OF r2]] by (rule conjI)
qed

text \<open>
  The claim as written has no condition on thread creation. When creation is refused,
  no thread is created and the response carries the supplied value, here the empty
  string, where the same request without the key gets \<^verbatim>\<open>null\<close>.
\<close>

theorem refused_creation_returns_supplied_id_counterexample:
  "chat_with_agent (Some no_threads_service) demo_clock
     \<lparr>get_json = Inr (JObj [(''message'', JStr ''Hello''), (''thread_id'', JStr [])])\<rparr> w0 =
     (([(''success'', JBool False),
        (''error'', JStr ''Error processing message: connection refused''),
        (''thread_id'', JStr [])], 500),
      \<lparr>calls = [ThreadsCreate], ticks = 0\<rparr>)
   \<and> chat_with_agent (Some no_threads_service) demo_clock
       \<lparr>get_json = Inr (JObj [(''message'', JStr ''Hello'')])\<rparr> w0 =
     (([(''success'', JBool False),
        (''error'', JStr ''Error processing message: connection refused''),
        (''thread_id'', JNull)], 500),
      \<lparr>calls = [ThreadsCreate], ticks = 0\<rparr>)"
  by (simp add: chat_with_agent_def chat_try_def process_invoice_message_def process_try_def
      no_threads_service_def demo_client_def record_call_def w0_def Let_def)

subsection \<open>The thread identifier in responses\<close>

text \<open>
  Claim C1, as the code has it. A chat response built from an envelope of the service
  (every request whose body is a dict with a \<open>message\<close>) carries the thread identifier
  known when the envelope is built, also when it reports failure: the one supplied when it
  is truthy, otherwise the one of the thread created during the call (when creation
  raised there is none, and the field holds the falsy value supplied). The new-thread
  response carries the identifier of the created thread. The messages response carries
  the requested identifier exactly when its status is 200.
\<close>

theorem thread_id_in_responses:
  "(get_json req = Inr (JObj kvs) \<and> map_of kvs ''message'' = Some m \<longrightarrow>
      map_of (fst (fst (chat_with_agent (Some svc) clock req w))) ''thread_id'' =
        Some (let t = (case map_of kvs ''thread_id'' of None \<Rightarrow> JNull | Some v \<Rightarrow> v)
              in if truthy t then t
                 else case threads_create (project_client svc) (calls w) of
                        Inl e \<Rightarrow> t
                      | Inr th \<Rightarrow> JStr (id' th)))
 \<and> (threads_create (project_client svc) (calls w) = Inr th \<longrightarrow>
      snd (fst (create_new_thread (Some svc) clock w)) = 200
    \<and> map_of (fst (fst (create_new_thread (Some svc) clock w))) ''thread_id'' =
        Some (JStr (id' th)))
 \<and> map_of (fst (fst (get_thread_messages (Some svc) clock tid w))) ''thread_id'' =
      (if snd (fst (get_thread_messages (Some svc) clock tid w)) = 200 then Some (JStr tid)
       else None)"
proof (intro conjI impI)
  assume a: "get_json req = Inr (JObj kvs) \<and> map_of kvs ''message'' = Some m"
  let ?t = "case map_of kvs ''thread_id'' of None \<Rightarrow> JNull | Some v \<Rightarrow> v"
  have "fst (fst (chat_with_agent (Some svc) clock req w)) =
          fst (process_invoice_message svc clock m ?t w)"
    using chat_delegates [of req kvs m svc clock w] a
    by (cases "process_invoice_message svc clock m ?t w") simp
  then show "map_of (fst (fst (chat_with_agent (Some svc) clock req w))) ''thread_id'' =
        Some (let t = ?t
              in if truthy t then t
                 else case threads_create (project_client svc) (calls w) of
                        Inl e \<Rightarrow> t
                      | Inr th \<Rightarrow> JStr (id' th))"
    by (simp add: process_invoice_message_thread_id Let_def)
next
  assume c: "threads_create (project_client svc) (calls w) = Inr th"
  show "snd (fst (create_new_thread (Some svc) clock w)) = 200"
    using c by (simp add: create_new_thread_def now_isoformat_def)
  show "map_of (fst (fst (create_new_thread (Some svc) clock w))) ''thread_id'' =
          Some (JStr (id' th))"
    using c by (simp add: create_new_thread_def now_isoformat_def)
next
  show "map_of (fst (fst (get_thread_messages (Some svc) clock tid w))) ''thread_id'' =
      (if snd (fst (get_thread_messages (Some svc) clock tid w)) = 200 then Some (JStr tid)
       else None)"
    by (simp add: get_thread_messages_def Let_def split: sum.splits prod.splits)
qed

theorem thread_id_in_responses_witness:
  "map_of (fst (fst (chat_with_agent (Some failed_run_service) demo_clock
       \<lparr>get_json = Inr (JObj [(''message'', JStr ''Hello''), (''thread_id'', JStr ''t1'')])\<rparr>
       w0))) ''thread_id'' = Some (JStr ''t1'')
   \<and> map_of (fst (fst (create_new_thread (Some failed_run_service) demo_clock w0))) ''thread_id''
       = Some (JStr ''t1'')"
  using thread_id_in_responses
     [of "\<lparr>get_json = Inr (JObj [(''message'', JStr ''Hello''), (''thread_id'', JStr ''t1'')])\<rparr>"
         "[(''message'', JStr ''Hello''), (''thread_id'', JStr ''t1'')]" "JStr ''Hello''"
         failed_run_service demo_clock w0 "\<lparr>id' = ''t1''\<rparr>"]
  by (simp add: failed_run_service_def demo_client_def)

text \<open>
  The claim as written covers every endpoint and every failure. The messages endpoint is
  given the thread identifier in the path; when the listing raises, its response has no
  \<open>thread_id\<close> field.
\<close>

theorem messages_failure_without_thread_id_counterexample:
  "get_thread_messages (Some no_listing_service) demo_clock ''t1'' w0 =
     (([(''success'', JBool False),
        (''error'', JStr ''Failed to get messages: service unavailable'')], 500),
      \<lparr>calls = [MessagesList (JStr ''t1'') ASCENDING], ticks = 0\<rparr>)
   \<and> map_of (fst (fst (get_thread_messages (Some no_listing_service) demo_clock ''t1'' w0)))
        ''thread_id'' = None"
  by (simp add: get_thread_messages_def no_listing_service_def demo_client_def record_call_def
      w0_def Let_def)

subsection \<open>Request validation\<close>

text \<open>
  A body that is absent or falsy, and a dict without the key \<open>message\<close>, is answered 400
  with the world unchanged: no platform call is made.
\<close>

lemma missing_message_rejected:
  assumes "get_json req = Inr data"
      and "\<not> truthy data \<or> (\<exists>kvs. data = JObj kvs \<and> map_of kvs ''message'' = None)"
  shows "chat_with_agent (Some svc) clock req w =
           (([(''success'', JBool False),
              (''error'', JStr ''Missing 'message' in request body'')], 400), w)"
proof -
  have "\<not> truthy data \<or> contains ''message'' data = Inr False"
    using assms(2) by (auto simp: map_of_eq_None_iff)
  then show ?thesis
    using assms(1) by (auto simp: chat_with_agent_def chat_try_def Let_def)
qed

text \<open>
  Claim C4 says that every chat request whose JSON body is absent or lacks the key
  \<open>message\<close> is answered with exactly 400, \<open>success = False\<close> and no platform call.
  For the body \<open>5\<close>, which has no such key, the membership test of line 146 raises inside
  the \<^verbatim>\<open>try\<close> block and the handler of lines 162-167 answers 500; no platform call is
  made.
\<close>

theorem non_dict_body_answered_500:
  "chat_with_agent (Some demo_service) demo_clock \<lparr>get_json = Inr (JInt 5)\<rparr> w0 =
     (([(''success'', JBool False),
        (''error'', JStr ''Internal server error: argument of type 'int' is not iterable'')],
       500), w0)"
  by (simp add: chat_with_agent_def chat_try_def)

subsection \<open>Start-up configuration\<close>

text \<open>
  Claim C7. \<open>setup_client\<close> reads the endpoint and the agent identifier from the
  environment and hands them to the SDK, which checks the arguments it requires: the
  client constructor raises for a missing endpoint, and the agent lookup of every client
  it returns raises for a missing agent identifier (the SDK is not part of the
  repository; these two checks are the hypotheses). If either value is absent, the
  construction of the service raises, which \<open>setup_client\<close> logs and raises again
  (lines 50-52), and the module leaves the gateway uninitialized (lines 118-122):
  start-up fails, no service holding a null value is ever in use.
\<close>

theorem absent_configuration_rejected_by_sdk:
  assumes absent: "env ''AZURE_AI_PROJECT_ENDPOINT'' = None \<or> env ''AZURE_AI_AGENT_ID'' = None"
      and endpoint_checked: "\<exists>e. AIProjectClient k None = Inl e"
      and agent_checked: "\<forall>url c h. AIProjectClient k url = Inr c \<longrightarrow> (\<exists>e. get_agent c h None = Inl e)"
  shows "(\<exists>e. fst (setup_client k env w) = Inl e) \<and> fst (invoice_service k env w) = None"
proof -
  have "\<exists>e. fst (setup_client k env w) = Inl e"
  proof (cases "DefaultAzureCredential k")
    case (Inl e)
    then show ?thesis by (simp add: setup_client_def)
  next
    case cred: (Inr u)
    show ?thesis
    proof (cases "AIProjectClient k (env ''AZURE_AI_PROJECT_ENDPOINT'')")
      case (Inl e)
      then show ?thesis using cred by (simp add: setup_client_def)
    next
      case (Inr c)
      then have "env ''AZURE_AI_PROJECT_ENDPOINT'' \<noteq> None"
        using endpoint_checked by (cases "env ''AZURE_AI_PROJECT_ENDPOINT''") auto
      then have "env ''AZURE_AI_AGENT_ID'' = None" using absent by auto
      moreover obtain e where "get_agent c (calls w) None = Inl e"
        using agent_checked Inr by blast
      ultimately show ?thesis using cred Inr by (simp add: setup_client_def)
    qed
  qed
  then show ?thesis
    by (cases "setup_client k env w") (auto simp: invoice_service_def)
qed

theorem absent_configuration_rejected_by_sdk_witness:
  "fst (setup_client strict_sdk endpoint_only w0) = Inl (Exception ''No value for given attribute'')
   \<and> fst (invoice_service strict_sdk endpoint_only w0) = None
   \<and> fst (setup_client strict_sdk unset w0) =
       Inl (Exception ''Parameter endpoint must not be None.'')
   \<and> fst (invoice_service strict_sdk unset w0) = None"
proof -
  have absent: "endpoint_only ''AZURE_AI_PROJECT_ENDPOINT'' = None
              \<or> endpoint_only ''AZURE_AI_AGENT_ID'' = None"
    by (simp add: endpoint_only_def)
  have neither: "unset ''AZURE_AI_PROJECT_ENDPOINT'' = None
               \<or> unset ''AZURE_AI_AGENT_ID'' = None"
    by (simp add: unset_def)
  have e: "\<exists>e. AIProjectClient strict_sdk None = Inl e"
    by (simp add: strict_sdk_def)
  have a: "\<forall>url c h. AIProjectClient strict_sdk url = Inr c \<longrightarrow> (\<exists>e. get_agent c h None = Inl e)"
    by (auto simp: strict_sdk_def strict_client_def split: option.splits)
  have one: "fst (setup_client strict_sdk endpoint_only w0) =
          Inl (Exception ''No value for given attribute'')"
    by (simp add: setup_client_def strict_sdk_def strict_client_def endpoint_only_def)
  have two: "fst (setup_client strict_sdk unset w0) =
          Inl (Exception ''Parameter endpoint must not be None.'')"
    by (simp add: setup_client_def strict_sdk_def unset_def)
  show ?thesis
    using one two
      absent_configuration_rejected_by_sdk [OF absent e a, of w0]
      absent_configuration_rejected_by_sdk [OF neither e a, of w0]
    by blast
qed

subsection \<open>A run that did not fail\<close>

text \<open>
  Claim C8, as the code has it. Let the thread be settled, the user message posted, and
  the run return with a status other than \<open>failed\<close>; let the listing, requested in
  ascending order, return without raising, be iterated to its end, and let its messages be
  readable. Then the call returns \<open>success = True\<close> with the thread identifier, the
  conversation and the run status, where the conversation holds, in the order of the
  listing, one record \<open>{role, content: last text segment, timestamp}\<close> for each message
  that has text; a message without text segments is left out. The platform calls are the
  posting, the run and the ascending listing.
\<close>

theorem successful_run_conversation:
  assumes settled: "truthy t \<or> threads_create (project_client svc) (calls w) = Inr th"
      and tid: "tid = (if truthy t then t else JStr (id' th))"
      and h: "h = (if truthy t then calls w else calls w @ [ThreadsCreate])"
      and posted: "messages_create (project_client svc) h tid ''user'' m = Inr u"
      and ran: "runs_create_and_process (project_client svc)
                  (h @ [MessagesCreate tid ''user'' m]) tid (agent_id svc) = Inr r"
      and not_failed: "status r \<noteq> ''failed''"
      and listed: "messages_list (project_client svc)
                     (h @ [MessagesCreate tid ''user'' m,
                           RunsCreateAndProcess tid (agent_id svc)]) tid ASCENDING = Inr ms"
      and complete: "failure ms = None"
      and readable: "\<forall>msg\<in>set (items ms). readable msg"
  shows "\<exists>conversation.
           fst (process_invoice_message svc clock m t w) =
             [(''success'', JBool True),
              (''thread_id'', tid),
              (''conversation'', JArr conversation),
              (''run_status'', JStr (status r))]
         \<and> list_all2 is_record_of (filter has_text (items ms)) conversation
         \<and> calls (snd (process_invoice_message svc clock m t w)) =
             h @ [MessagesCreate tid ''user'' m,
                  RunsCreateAndProcess tid (agent_id svc),
                  MessagesList tid ASCENDING]"
proof -
  let ?w3 = "w\<lparr>calls := h @ [MessagesCreate tid ''user'' m,
                              RunsCreateAndProcess tid (agent_id svc),
                              MessagesList tid ASCENDING]\<rparr>"
  obtain conversation w4 where
    fc: "format_conversation clock (items ms) None [] ?w3 = (Inr ([] @ conversation), w4)"
    and rel: "list_all2 is_record_of (filter has_text (items ms)) conversation"
    using format_conversation_readable [OF readable, of clock "[]" ?w3] by blast
  have c4: "calls w4 = calls ?w3" using format_conversation_callsD [OF fc] .
  have reduce: "process_try svc clock m t w = post_and_run svc clock m tid (w\<lparr>calls := h\<rparr>)"
    using settled tid h by (cases "truthy t") (auto simp: process_try_def record_call_def)
  have "post_and_run svc clock m tid (w\<lparr>calls := h\<rparr>) =
          (Inr [(''success'', JBool True),
                (''thread_id'', tid),
                (''conversation'', JArr conversation),
                (''run_status'', JStr (status r))], w4)"
    using posted ran not_failed listed complete fc
    by (simp add: post_and_run_def record_call_def Let_def)
  then have "process_invoice_message svc clock m t w =
          ([(''success'', JBool True),
            (''thread_id'', tid),
            (''conversation'', JArr conversation),
            (''run_status'', JStr (status r))], w4)"
    using reduce by (simp add: process_invoice_message_def)
  then show ?thesis using rel c4 by auto
qed

theorem successful_run_conversation_witness:
  "\<exists>conversation.
     fst (process_invoice_message demo_service demo_clock (JStr ''Hello'') (JStr ''t1'') w0) =
       [(''success'', JBool True),
        (''thread_id'', JStr ''t1''),
        (''conversation'', JArr conversation),
        (''run_status'', JStr ''completed'')]
     \<and> list_all2 is_record_of (filter has_text (items demo_page)) conversation
     \<and> calls (snd (process_invoice_message demo_service demo_clock (JStr ''Hello'')
                     (JStr ''t1'') w0)) =
         [MessagesCreate (JStr ''t1'') ''user'' (JStr ''Hello''),
          RunsCreateAndProcess (JStr ''t1'') (Some ''agent-1''),
          MessagesList (JStr ''t1'') ASCENDING]"
proof -
  have readable: "\<forall>msg\<in>set (items demo_page). readable msg"
    by (simp add: demo_page_def demo_message_def readable_def)
  have listed: "messages_list (project_client demo_service)
                  ([] @ [MessagesCreate (JStr ''t1'') ''user'' (JStr ''Hello''),
                         RunsCreateAndProcess (JStr ''t1'') (agent_id demo_service)])
                  (JStr ''t1'') ASCENDING = Inr demo_page"
    by (simp add: demo_service_def demo_client_def demo_page_def)
  have complete: "failure demo_page = None" by (simp add: demo_page_def)
  have ran: "runs_create_and_process (project_client demo_service)
               ([] @ [MessagesCreate (JStr ''t1'') ''user'' (JStr ''Hello'')]) (JStr ''t1'')
               (agent_id demo_service) = Inr \<lparr>status = ''completed'', last_error = ''None''\<rparr>"
    by (simp add: demo_service_def demo_client_def)
  have posted: "messages_create (project_client demo_service) [] (JStr ''t1'') ''user''
                  (JStr ''Hello'') = Inr ()"
    by (simp add: demo_service_def demo_client_def)
  show ?thesis
    using successful_run_conversation
      [of "JStr ''t1''" demo_service w0 "\<lparr>id' = ''unused''\<rparr>" "JStr ''t1''" "[]" "JStr ''Hello''"
          "()" "\<lparr>status = ''completed'', last_error = ''None''\<rparr>" demo_page demo_clock]
      posted ran listed complete readable
    by (simp add: w0_def demo_service_def)
qed

text \<open>
  The claim as written maps each message of the thread to a record. A message without
  text segments gets none: two messages are listed, the conversation has one record.
\<close>

theorem message_without_text_counterexample:
  "process_invoice_message image_service demo_clock (JStr ''Hello'') (JStr ''t1'') w0 =
     ([(''success'', JBool True),
       (''thread_id'', JStr ''t1''),
       (''conversation'',
          JArr [JObj [(''role'', JStr ''user''), (''content'', JStr ''Hello''),
                      (''timestamp'', JStr ''2025-01-01T00:00:00'')]]),
       (''run_status'', JStr ''completed'')],
      \<lparr>calls = [MessagesCreate (JStr ''t1'') ''user'' (JStr ''Hello''),
                RunsCreateAndProcess (JStr ''t1'') (Some ''agent-1''),
                MessagesList (JStr ''t1'') ASCENDING],
       ticks = 0\<rparr>)
   \<and> messages_list (project_client image_service)
        [MessagesCreate (JStr ''t1'') ''user'' (JStr ''Hello''),
         RunsCreateAndProcess (JStr ''t1'') (Some ''agent-1'')] (JStr ''t1'') ASCENDING =
       Inr image_page
   \<and> length (items image_page) = 2"
  by (simp add: process_invoice_message_def process_try_def post_and_run_def format_message_def
      image_service_def image_page_def demo_client_def demo_message_def record_call_def w0_def
      Let_def)

subsection \<open>Listing a thread twice\<close>

text \<open>
  Claim C9. Call the messages endpoint twice in a row with the same thread identifier,
  the platform answering the second listing as it answered the first. The objects that
  the SDK lists all have the attribute \<open>created_at\<close> (the hypothesis \<open>dated\<close>), so no
  timestamp is taken from the clock. Then the two responses are identical: the same
  status and, on success, the same ordered sequence of records \<open>{role, content,
  timestamp}\<close>.
\<close>

theorem get_messages_idempotent:
  assumes same: "messages_list (project_client svc)
                   (calls w @ [MessagesList (JStr tid) ASCENDING]) (JStr tid) ASCENDING =
                 messages_list (project_client svc) (calls w) (JStr tid) ASCENDING"
      and dated: "\<forall>ms. messages_list (project_client svc) (calls w) (JStr tid) ASCENDING = Inr ms
                    \<longrightarrow> (\<forall>msg\<in>set (items ms). created_at msg \<noteq> None)"
  shows "fst (get_thread_messages (Some svc) clock tid
                (snd (get_thread_messages (Some svc) clock tid w))) =
         fst (get_thread_messages (Some svc) clock tid w)"
proof (cases "messages_list (project_client svc) (calls w) (JStr tid) ASCENDING")
  case (Inl e)
  then show ?thesis using same
    by (simp add: get_thread_messages_def record_call_def Let_def)
next
  case (Inr ms)
  let ?w1 = "record_call (MessagesList (JStr tid) ASCENDING) w"
  let ?w2 = "record_call (MessagesList (JStr tid) ASCENDING) ?w1"
  have d: "\<forall>msg\<in>set (items ms). has_text msg \<longrightarrow> created_at msg \<noteq> None"
    using dated Inr by blast
  obtain res where res: "res = fst (format_conversation clock (items ms) (failure ms) [] ?w2)"
    by simp
  have first: "format_conversation clock (items ms) (failure ms) [] ?w1 = (res, ?w1)"
    unfolding res by (rule format_conversation_stamped [OF d])
  have second: "format_conversation clock (items ms) (failure ms) [] ?w2 = (res, ?w2)"
    unfolding res by (rule format_conversation_stamped [OF d])
  have l2: "messages_list (project_client svc) (calls ?w1) (JStr tid) ASCENDING = Inr ms"
    using same Inr by (simp add: record_call_def)
  have one: "get_thread_messages (Some svc) clock tid w =
               (case res of
                  Inl e \<Rightarrow> ([(''success'', JBool False),
                              (''error'', JStr (''Failed to get messages: '' @ str e))], 500)
                | Inr conversation \<Rightarrow>
                    ([(''success'', JBool True),
                      (''thread_id'', JStr tid),
                      (''messages'', JArr conversation)], 200), ?w1)"
    using Inr first by (cases res) (simp_all add: get_thread_messages_def Let_def)
  have two: "get_thread_messages (Some svc) clock tid ?w1 =
               (case res of
                  Inl e \<Rightarrow> ([(''success'', JBool False),
                              (''error'', JStr (''Failed to get messages: '' @ str e))], 500)
                | Inr conversation \<Rightarrow>
                    ([(''success'', JBool True),
                      (''thread_id'', JStr tid),
                      (''messages'', JArr conversation)], 200), ?w2)"
    using l2 second by (cases res) (simp_all add: get_thread_messages_def Let_def)
  show ?thesis by (simp add: one two)
qed

theorem get_messages_idempotent_witness:
  "fst (get_thread_messages (Some demo_service) demo_clock ''t1''
          (snd (get_thread_messages (Some demo_service) demo_clock ''t1'' w0))) =
   fst (get_thread_messages (Some demo_service) demo_clock ''t1'' w0)
   \<and> fst (get_thread_messages (Some demo_service) demo_clock ''t1'' w0) =
       ([(''success'', JBool True),
         (''thread_id'', JStr ''t1''),
         (''messages'',
            JArr [JObj [(''role'', JStr ''user''), (''content'', JStr ''Hello''),
                        (''timestamp'', JStr ''2025-01-01T00:00:00'')],
                  JObj [(''role'', JStr ''assistant''), (''content'', JStr ''Hi''),
                        (''timestamp'', JStr ''2025-01-01T00:00:05'')]])], 200)"
proof -
  have same: "messages_list (project_client demo_service)
                (calls w0 @ [MessagesList (JStr ''t1'') ASCENDING]) (JStr ''t1'') ASCENDING =
              messages_list (project_client demo_service) (calls w0) (JStr ''t1'') ASCENDING"
    by (simp add: demo_service_def demo_client_def)
  have dated: "\<forall>ms. messages_list (project_client demo_service) (calls w0) (JStr ''t1'')
                       ASCENDING = Inr ms
                 \<longrightarrow> (\<forall>msg\<in>set (items ms). created_at msg \<noteq> None)"
    by (auto simp: demo_service_def demo_client_def demo_message_def)
  have v: "fst (get_thread_messages (Some demo_service) demo_clock ''t1'' w0) =
       ([(''success'', JBool True),
         (''thread_id'', JStr ''t1''),
         (''messages'',
            JArr [JObj [(''role'', JStr ''user''), (''content'', JStr ''Hello''),
                        (''timestamp'', JStr ''2025-01-01T00:00:00'')],
                  JObj [(''role'', JStr ''assistant''), (''content'', JStr ''Hi''),
                        (''timestamp'', JStr ''2025-01-01T00:00:05'')]])], 200)"
    by (simp add: get_thread_messages_def format_message_def demo_service_def demo_client_def
        demo_message_def record_call_def w0_def Let_def)
  show ?thesis
    using get_messages_idempotent [OF same dated, of demo_clock] v by (rule conjI)
qed

end
